theory Spec2Isabelle
  imports Complex_Main "HOL-Library.AList"
begin

section \<open>Python values and failures\<close>

text \<open>
  The exceptions the modelled functions can raise. \<open>ValueError\<close> carries its message,
  since \<open>custom_preset_profiles\<close> builds a new message out of the one it catches.
\<close>

datatype py_error =
    IndexError
  | ZeroDivisionError
  | AssertionError
  | ValueError string

text \<open>
  Python list indexing: a negative index counts from the end, and an index outside
  \<open>-len .. len - 1\<close> raises \<open>IndexError\<close>. \<open>py_index\<close> gives the position that is
  read or written.
\<close>

definition py_index :: "'a list \<Rightarrow> int \<Rightarrow> py_error + nat" where
  "py_index xs i =
     (let n = int (length xs); j = (if i < 0 then n + i else i)
      in if 0 \<le> j \<and> j < n then Inr (nat j) else Inl IndexError)"

text \<open>The statement \<open>weights[i] += 1\<close>.\<close>

definition py_incr :: "int list \<Rightarrow> int \<Rightarrow> py_error + int list" where
  "py_incr ws i =
     (case py_index ws i of
        Inl e \<Rightarrow> Inl e
      | Inr j \<Rightarrow> Inr (ws[j := ws ! j + 1]))"

text \<open>
  A list comprehension \<open>[f(x) for x in xs]\<close> whose \<open>f\<close> can raise: the first failure
  ends the evaluation.
\<close>

fun map_result :: "('a \<Rightarrow> py_error + 'b) \<Rightarrow> 'a list \<Rightarrow> py_error + 'b list" where
  "map_result f [] = Inr []"
| "map_result f (x # xs) =
     (case f x of
        Inl e \<Rightarrow> Inl e
      | Inr y \<Rightarrow> (case map_result f xs of Inl e \<Rightarrow> Inl e | Inr ys \<Rightarrow> Inr (y # ys)))"

section \<open>presets.py: the colour profile\<close>

subsection \<open>\<open>ColorProfile.__init__\<close>\<close>

text \<open>
  The class \<open>RGB\<close> lives in \<open>color_util\<close>, which is not among the sources. The profile
  never looks inside a colour, so the colour type is the parameter \<open>'c\<close>, and the
  operations of \<open>RGB\<close> that the profile calls (\<open>from_hex\<close>, \<open>to_ansi\<close>, \<open>set_light\<close>,
  \<open>overlay\<close>) are parameters of the functions that call them.

  A profile holds \<open>colors\<close>, and \<open>raw\<close> only when it was built from strings (the
  attribute does not exist otherwise). The class attribute \<open>spacing\<close> is the constant
  \<open>'equal'\<close> and no method reads it.
\<close>

record 'c ColorProfile =
  raw :: "string list option"
  colors :: "'c list"

text \<open>
  The argument of the constructor, \<open>list[str] | list[RGB]\<close>. The constructor looks at
  \<open>colors[0]\<close> to tell the two apart, which raises \<open>IndexError\<close> on an empty list.
\<close>

datatype 'c color_list = Strs "string list" | Rgbs "'c list"

fun ColorProfile_init ::
  "(string \<Rightarrow> py_error + 'c) \<Rightarrow> 'c color_list \<Rightarrow> py_error + 'c ColorProfile" where
  "ColorProfile_init hex (Strs []) = Inl IndexError"
| "ColorProfile_init hex (Rgbs []) = Inl IndexError"
| "ColorProfile_init hex (Strs (s # ss)) =
     (case map_result hex (s # ss) of
        Inl e \<Rightarrow> Inl e
      | Inr cs \<Rightarrow> Inr \<lparr>raw = Some (s # ss), colors = cs\<rparr>)"
| "ColorProfile_init hex (Rgbs (c # cs)) = Inr \<lparr>raw = None, colors = c # cs\<rparr>"

subsection \<open>\<open>ColorProfile.with_weights\<close>\<close>

text \<open>
  \<open>[c for i, w in enumerate(weights) for c in [self.colors[i]] * w]\<close>: the colour
  \<open>self.colors[i]\<close> is read for every weight, also for a weight of zero, so a weight
  list longer than the colour list raises \<open>IndexError\<close>. A list times a negative
  number is the empty list, which is what \<open>replicate (nat w)\<close> gives.
\<close>

fun with_weights_from :: "'c list \<Rightarrow> nat \<Rightarrow> int list \<Rightarrow> py_error + 'c list" where
  "with_weights_from cs i [] = Inr []"
| "with_weights_from cs i (w # ws) =
     (if i < length cs then
        (case with_weights_from cs (Suc i) ws of
           Inl e \<Rightarrow> Inl e
         | Inr rest \<Rightarrow> Inr (replicate (nat w) (cs ! i) @ rest))
      else Inl IndexError)"

definition with_weights :: "'c ColorProfile \<Rightarrow> int list \<Rightarrow> py_error + 'c list" where
  "with_weights p weights = with_weights_from (colors p) 0 weights"

subsection \<open>\<open>ColorProfile.with_length\<close>\<close>

text \<open>
  The loop \<open>while extras > 0\<close> of \<open>with_length\<close>, on the triple of the variables it
  changes. Each pass takes two from \<open>extras\<close>, which is the measure of termination.
\<close>

function border_loop :: "int \<Rightarrow> int list \<Rightarrow> int \<Rightarrow> py_error + int list" where
  "border_loop extras weights border_i =
     (if extras > 0 then
        (case py_incr weights border_i of
           Inl e \<Rightarrow> Inl e
         | Inr w1 \<Rightarrow>
             (case py_incr w1 (- (border_i + 1)) of
                Inl e \<Rightarrow> Inl e
              | Inr w2 \<Rightarrow> border_loop (extras - 2) w2 (border_i + 1)))
      else Inr weights)"
  by pat_completeness auto
termination
  by (relation "measure (\<lambda>(extras, weights, border_i). nat extras)") auto

declare border_loop.simps [simp del]

text \<open>
  Lines 47 to 68 of \<open>with_length\<close>: the weights, which depend on the number of colours
  and on the target length only. \<open>length // preset_len\<close> raises \<open>ZeroDivisionError\<close>
  for a profile without colours; Python's \<open>//\<close> and \<open>%\<close> round towards minus
  infinity, as \<open>div\<close> and \<open>mod\<close> on \<open>int\<close> do.
\<close>

definition length_weights :: "int \<Rightarrow> int \<Rightarrow> py_error + int list" where
  "length_weights preset_len len =
     (let center_i = preset_len div 2 in
      if preset_len = 0 then Inl ZeroDivisionError
      else
        let repeats = len div preset_len;
            weights = replicate (nat preset_len) repeats;
            extras = len mod preset_len
        in case (if extras mod 2 = 1
                 then (case py_incr weights center_i of
                         Inl e \<Rightarrow> Inl e
                       | Inr w \<Rightarrow> Inr (extras - 1, w))
                 else Inr (extras, weights)) of
             Inl e \<Rightarrow> Inl e
           | Inr (extras', weights') \<Rightarrow> border_loop extras' weights' 0)"

definition with_length :: "'c ColorProfile \<Rightarrow> int \<Rightarrow> py_error + 'c list" where
  "with_length p len =
     (case length_weights (int (length (colors p))) len of
        Inl e \<Rightarrow> Inl e
      | Inr weights \<Rightarrow> with_weights p weights)"

text \<open>
  The policy in closed form: what colour \<open>i\<close> of \<open>n\<close> weighs for a target length
  \<open>len\<close>. The base weight, one more for the centre colour when the remainder is odd,
  and one more for each of the \<open>(len mod n) div 2\<close> outermost colours on either side.
\<close>

definition policy_weight :: "int \<Rightarrow> int \<Rightarrow> int \<Rightarrow> int" where
  "policy_weight n len i =
     len div n
     + (if odd (len mod n) \<and> i = n div 2 then 1 else 0)
     + (if i < (len mod n) div 2 then 1 else 0)
     + (if n - (len mod n) div 2 \<le> i then 1 else 0)"

subsection \<open>\<open>ColorProfile.color_text\<close>\<close>





subsection \<open>Lightness and overlay\<close>

text \<open>
  \<open>GLOBAL_CFG\<close> of \<open>constants\<close>, which is not among the sources: the two things the
  profile asks of it, the flag \<open>use_overlay\<close> and the answer of \<open>light_dark()\<close>.
\<close>

record GlobalConfig =
  use_overlay :: bool
  detected_light_dark :: string

text \<open>
  The lightness is a Python float. Its arithmetic is not modelled: the three
  operations and the two literals that \<open>overlay_dl\<close> uses are the fields of a
  record, so that a theorem about \<open>abs(light - 0.5) * 2\<close> holds for whatever the
  floating-point operations compute.
\<close>

record 'f float_ops =
  f_sub :: "'f \<Rightarrow> 'f \<Rightarrow> 'f"
  f_abs :: "'f \<Rightarrow> 'f"
  f_mul :: "'f \<Rightarrow> 'f \<Rightarrow> 'f"
  f_half :: 'f
  f_two :: 'f

text \<open>
  For examples: the operations on the reals, with which floating-point arithmetic
  agrees wherever it does not round.
\<close>

definition exact_ops :: "real float_ops" where
  "exact_ops = \<lparr>f_sub = (\<lambda>x y. x - y), f_abs = abs, f_mul = (\<lambda>x y. x * y), f_half = 1 / 2, f_two = 2\<rparr>"

text \<open>\<open>str.lower()\<close> on the ASCII letters.\<close>

definition lower_char :: "char \<Rightarrow> char" where
  "lower_char c =
     (let k = of_char c :: nat in if 65 \<le> k \<and> k \<le> 90 then char_of (k + 32) else c)"

definition py_lower :: "string \<Rightarrow> string" where
  "py_lower s = map lower_char s"

text \<open>
  \<open>term = term or GLOBAL_CFG.light_dark()\<close>: \<open>None\<close> and the empty string are
  both false.
\<close>

definition term_or_detected :: "GlobalConfig \<Rightarrow> string option \<Rightarrow> string" where
  "term_or_detected G term =
     (case term of
        None \<Rightarrow> detected_light_dark G
      | Some t \<Rightarrow> if t = [] then detected_light_dark G else t)"

definition set_light_raw ::
  "('c \<Rightarrow> 'f \<Rightarrow> bool option \<Rightarrow> bool option \<Rightarrow> 'c) \<Rightarrow> (string \<Rightarrow> py_error + 'c)
     \<Rightarrow> 'c ColorProfile \<Rightarrow> 'f \<Rightarrow> bool option \<Rightarrow> bool option \<Rightarrow> py_error + 'c ColorProfile" where
  "set_light_raw c_set_light hex p light at_least at_most =
     ColorProfile_init hex (Rgbs (map (\<lambda>c. c_set_light c light at_least at_most) (colors p)))"

definition overlay_raw ::
  "('c \<Rightarrow> 'c \<Rightarrow> 'f \<Rightarrow> 'c) \<Rightarrow> (string \<Rightarrow> py_error + 'c)
     \<Rightarrow> 'c ColorProfile \<Rightarrow> 'c \<Rightarrow> 'f \<Rightarrow> py_error + 'c ColorProfile" where
  "overlay_raw c_overlay hex p color alpha =
     ColorProfile_init hex (Rgbs (map (\<lambda>c. c_overlay c color alpha) (colors p)))"

text \<open>The argument \<open>abs(light - 0.5) * 2\<close> of \<open>overlay_dl\<close>.\<close>

definition overlay_alpha :: "'f float_ops \<Rightarrow> 'f \<Rightarrow> 'f" where
  "overlay_alpha F light = f_mul F (f_abs F (f_sub F light (f_half F))) (f_two F)"

text \<open>
  \<open>overlay_dl\<close>. The \<open>assert\<close> raises \<open>AssertionError\<close> for a terminal name that is
  neither \<open>light\<close> nor \<open>dark\<close> in any case of letters.
\<close>

definition overlay_dl ::
  "'f float_ops \<Rightarrow> GlobalConfig \<Rightarrow> ('c \<Rightarrow> 'c \<Rightarrow> 'f \<Rightarrow> 'c) \<Rightarrow> (string \<Rightarrow> py_error + 'c)
     \<Rightarrow> 'c ColorProfile \<Rightarrow> 'f \<Rightarrow> string option \<Rightarrow> py_error + 'c ColorProfile" where
  "overlay_dl F G c_overlay hex p light term =
     (let term' = term_or_detected G term in
      if py_lower term' \<notin> set [''light'', ''dark''] then Inl AssertionError
      else
        (case hex (if py_lower term' = ''light'' then ''#000000'' else ''#FFFFFF'') of
           Inl e \<Rightarrow> Inl e
         | Inr overlay_color \<Rightarrow> overlay_raw c_overlay hex p overlay_color (overlay_alpha F light)))"

text \<open>
  \<open>set_light_dl\<close>. \<open>(True, None) if term.lower() == 'dark' else (None, True)\<close> is the
  pair \<open>at_least, at_most\<close>.
\<close>

definition set_light_dl ::
  "'f float_ops \<Rightarrow> GlobalConfig \<Rightarrow> ('c \<Rightarrow> 'f \<Rightarrow> bool option \<Rightarrow> bool option \<Rightarrow> 'c)
     \<Rightarrow> ('c \<Rightarrow> 'c \<Rightarrow> 'f \<Rightarrow> 'c) \<Rightarrow> (string \<Rightarrow> py_error + 'c)
     \<Rightarrow> 'c ColorProfile \<Rightarrow> 'f \<Rightarrow> string option \<Rightarrow> py_error + 'c ColorProfile" where
  "set_light_dl F G c_set_light c_overlay hex p light term =
     (if use_overlay G then overlay_dl F G c_overlay hex p light term
      else
        let term' = term_or_detected G term in
        if py_lower term' \<notin> set [''light'', ''dark''] then Inl AssertionError
        else
          let (at_least, at_most) =
                (if py_lower term' = ''dark'' then (Some True, None) else (None, Some True))
          in set_light_raw c_set_light hex p light at_least at_most)"

subsection \<open>\<open>remove_duplicates\<close> and \<open>ColorProfile.unique_colors\<close>\<close>

text \<open>
  \<open>[x for x in seq if not (x in seen or seen_add(x))]\<close>: an element already seen is
  dropped; any other is added to \<open>seen\<close> (\<open>seen_add\<close> returns \<open>None\<close>) and kept.
\<close>

fun remove_duplicates_seen :: "'a set \<Rightarrow> 'a list \<Rightarrow> 'a list" where
  "remove_duplicates_seen seen [] = []"
| "remove_duplicates_seen seen (x # xs) =
     (if x \<in> seen then remove_duplicates_seen seen xs
      else x # remove_duplicates_seen (insert x seen) xs)"

definition remove_duplicates :: "'a list \<Rightarrow> 'a list" where
  "remove_duplicates seq = remove_duplicates_seen {} seq"

definition unique_colors ::
  "(string \<Rightarrow> py_error + 'c) \<Rightarrow> 'c ColorProfile \<Rightarrow> py_error + 'c ColorProfile" where
  "unique_colors hex p = ColorProfile_init hex (Rgbs (remove_duplicates (colors p)))"

text \<open>
  The elements of a list at their first occurrence, in the order of the list:
  position \<open>i\<close> stays when its element is not among the \<open>i\<close> elements before it.
\<close>

definition first_occurrences :: "'a list \<Rightarrow> 'a list" where
  "first_occurrences xs =
     map (\<lambda>i. xs ! i) (filter (\<lambda>i. xs ! i \<notin> set (take i xs)) [0..<length xs])"

section \<open>models.py: the configuration record\<close>

subsection \<open>\<open>build_hex_color_profile\<close>\<close>

text \<open>
  The condition of the \<open>if not (...)\<close>: \<open>color.startswith('#')\<close>,
  \<open>len(color) in [4, 7]\<close>, and \<open>c in '0123456789abcdefABCDEF'\<close> for every \<open>c\<close>
  of \<open>color[1:]\<close>. A character outside ASCII fails the last test whatever its
  encoding, so the bytes of \<open>string\<close> decide as the code points of Python do.
\<close>

definition hex_color_ok :: "string \<Rightarrow> bool" where
  "hex_color_ok color =
     (take 1 color = ''#''
      \<and> length color \<in> set [4, 7]
      \<and> list_all (\<lambda>c. c \<in> set ''0123456789abcdefABCDEF'') (drop 1 color))"

text \<open>The loop \<open>for color in hex_colors\<close>, which raises at the first bad colour.\<close>

fun check_hex_colors :: "string list \<Rightarrow> py_error + unit" where
  "check_hex_colors [] = Inr ()"
| "check_hex_colors (color # rest) =
     (if \<not> hex_color_ok color then Inl (ValueError (''invalid hex color: '' @ color))
      else check_hex_colors rest)"

definition build_hex_color_profile ::
  "(string \<Rightarrow> py_error + 'c) \<Rightarrow> string list \<Rightarrow> py_error + 'c ColorProfile" where
  "build_hex_color_profile hex hex_colors =
     (case check_hex_colors hex_colors of
        Inl e \<Rightarrow> Inl e
      | Inr u \<Rightarrow> ColorProfile_init hex (Strs hex_colors))"

text \<open>
  The hex colour literal as the specification words it: the marker \<open>#\<close>, then 3 or
  6 hex digits in either case. The digits are told by their character codes.
\<close>

definition is_hex_digit :: "char \<Rightarrow> bool" where
  "is_hex_digit c =
     (let k = of_char c :: nat
      in (48 \<le> k \<and> k \<le> 57) \<or> (65 \<le> k \<and> k \<le> 70) \<or> (97 \<le> k \<and> k \<le> 102))"

definition is_hex_literal :: "string \<Rightarrow> bool" where
  "is_hex_literal s =
     (case s of
        [] \<Rightarrow> False
      | m # ds \<Rightarrow> m = CHR ''#'' \<and> (length ds = 3 \<or> length ds = 6) \<and> list_all is_hex_digit ds)"

subsection \<open>\<open>Config\<close>\<close>

text \<open>
  The dataclass, field by field. The \<open>Literal\<close> types are strings at run time; the
  lightness is a float (\<open>'f\<close>) and the alignment a \<open>ColorAlignment\<close> of
  \<open>neofetch_util\<close>, not among the sources (\<open>'a\<close>). A dictionary is iterated in the
  order of insertion, so \<open>custom_presets\<close> is the list of its items.
\<close>

record ('f, 'a) Config =
  preset :: string
  mode :: string
  light_dark :: string
  lightness :: "'f option"
  color_align :: 'a
  backend :: string
  args :: "string option"
  distro :: "string option"
  pride_month_shown :: "int list"
  pride_month_disable :: bool
  custom_ascii_path :: "string option"
  custom_presets :: "(string \<times> string list) list option"

text \<open>
  The loop of \<open>custom_preset_profiles\<close>. \<open>profiles[preset_name] = ...\<close> keeps the
  place of a key that is there and appends a new one, as \<open>AList.update\<close> does. Only
  \<open>ValueError\<close> is caught and raised again under the key of the preset; any other
  exception passes.
\<close>

fun custom_presets_loop ::
  "(string \<Rightarrow> py_error + 'c) \<Rightarrow> (string \<times> string list) list
     \<Rightarrow> (string \<times> 'c ColorProfile) list \<Rightarrow> py_error + (string \<times> 'c ColorProfile) list" where
  "custom_presets_loop hex [] profiles = Inr profiles"
| "custom_presets_loop hex ((preset_name, cols) # rest) profiles =
     (case build_hex_color_profile hex cols of
        Inl (ValueError err) \<Rightarrow>
          Inl (ValueError (''failed to validate custom preset key '' @ [CHR 0x22] @ preset_name
                             @ [CHR 0x22] @ '': '' @ err))
      | Inl e \<Rightarrow> Inl e
      | Inr profile \<Rightarrow> custom_presets_loop hex rest (AList.update preset_name profile profiles))"

text \<open>\<open>if self.custom_presets:\<close> is false for \<open>None\<close> and for the empty dictionary.\<close>

definition custom_preset_profiles ::
  "(string \<Rightarrow> py_error + 'c) \<Rightarrow> ('f, 'a) Config \<Rightarrow> py_error + (string \<times> 'c ColorProfile) list" where
  "custom_preset_profiles hex cfg =
     (case custom_presets cfg of
        None \<Rightarrow> Inr []
      | Some items \<Rightarrow> if items = [] then Inr [] else custom_presets_loop hex items [])"

text \<open>The first colour of a list that the check refuses.\<close>

definition first_bad_color :: "string list \<Rightarrow> string" where
  "first_bad_color cols = hd (filter (\<lambda>c. \<not> hex_color_ok c) cols)"

section \<open>color_util: hex parsing\<close>

text \<open>
  Modelled from the spec: \<open>RGB\<close> and \<open>RGB.from_hex\<close> of \<open>color_util\<close>, which is not
  among the sources. The specification gives a colour three channels of 0 to 255 and
  has \<open>from_hex\<close> accept the 3- and 6-digit forms after a \<open>#\<close> and fail with an
  invalid-input error on anything else. A digit of the short form stands for
  itself twice; the text of the error is not specified.
\<close>

datatype RGB = RGB nat nat nat

definition hex_digit_value :: "char \<Rightarrow> nat" where
  "hex_digit_value c =
     (let k = of_char c :: nat
      in if k \<le> 57 then k - 48 else if k \<le> 70 then k - 55 else k - 87)"

definition RGB_from_hex :: "string \<Rightarrow> py_error + RGB" where
  "RGB_from_hex s =
     (if is_hex_literal s then
        (case map hex_digit_value (drop 1 s) of
           [r, g, b] \<Rightarrow> Inr (RGB (17 * r) (17 * g) (17 * b))
         | [r1, r2, g1, g2, b1, b2] \<Rightarrow> Inr (RGB (16 * r1 + r2) (16 * g1 + g2) (16 * b1 + b2))
         | _ \<Rightarrow> Inl (ValueError (''invalid hex color: '' @ s)))
      else Inl (ValueError (''invalid hex color: '' @ s)))"




section \<open>rs.py: the launcher\<close>

subsection \<open>Parsing the macOS version\<close>

text \<open>\<open>str.split(sep)\<close> for a separator of one character: empty pieces are kept.\<close>

fun py_split :: "char \<Rightarrow> string \<Rightarrow> string list" where
  "py_split sep [] = [[]]"
| "py_split sep (c # cs) =
     (if c = sep then [] # py_split sep cs
      else (case py_split sep cs of
              [] \<Rightarrow> [[c]]
            | piece # pieces \<Rightarrow> (c # piece) # pieces))"

text \<open>
  \<open>int(s)\<close> on a string, in base 10: white space around is dropped (tab, line
  feed, vertical tab, form feed, carriage return and space), a sign may come first,
  and single underscores may stand between digits. Anything else is a
  \<open>ValueError\<close>. Only ASCII is modelled (Python also takes the digits and spaces of
  other scripts), and the message quotes the string plainly.
\<close>

definition is_py_space :: "char \<Rightarrow> bool" where
  "is_py_space c = (let k = of_char c :: nat in (9 \<le> k \<and> k \<le> 13) \<or> k = 32)"

definition py_strip :: "string \<Rightarrow> string" where
  "py_strip s = rev (dropWhile is_py_space (rev (dropWhile is_py_space s)))"

definition is_digit :: "char \<Rightarrow> bool" where
  "is_digit c = (let k = of_char c :: nat in 48 \<le> k \<and> k \<le> 57)"

fun int_digits :: "bool \<Rightarrow> nat \<Rightarrow> string \<Rightarrow> nat option" where
  "int_digits after_digit acc [] = (if after_digit then Some acc else None)"
| "int_digits after_digit acc (c # cs) =
     (if is_digit c then int_digits True (10 * acc + (of_char c - 48)) cs
      else if c = CHR ''_'' \<and> after_digit then int_digits False acc cs
      else None)"

definition py_int :: "string \<Rightarrow> py_error + int" where
  "py_int s =
     (let t = py_strip s;
          (negative, body) =
            (case t of
               [] \<Rightarrow> (False, [])
             | c # cs \<Rightarrow>
                 if c = CHR ''-'' then (True, cs)
                 else if c = CHR ''+'' then (False, cs)
                 else (False, t))
      in case int_digits False 0 body of
           None \<Rightarrow>
             Inl (ValueError (''invalid literal for int() with base 10: ''
                                @ [CHR 0x27] @ s @ [CHR 0x27]))
         | Some n \<Rightarrow> Inr (if negative then - int n else int n))"

text \<open>
  The order of Python on tuples of integers: the first position where the two
  differ decides, and a proper prefix is the smaller.
\<close>

fun tuple_less :: "int list \<Rightarrow> int list \<Rightarrow> bool" where
  "tuple_less [] [] = False"
| "tuple_less [] (y # ys) = True"
| "tuple_less (x # xs) [] = False"
| "tuple_less (x # xs) (y # ys) = (if x = y then tuple_less xs ys else x < y)"

text \<open>\<open>tuple(map(int, mac_ver.split('.')))\<close>.\<close>

definition version_tuple :: "string \<Rightarrow> py_error + int list" where
  "version_tuple v = map_result py_int (py_split (CHR ''.'') v)"

subsection \<open>\<open>run_rust\<close>\<close>

text \<open>
  What \<open>run_rust\<close> reads from the process and the system: \<open>platform.system()\<close>,
  \<open>sys.getwindowsversion().major\<close> (asked for on Windows only),
  \<open>platform.mac_ver()[0]\<close>, the path \<open>SRC\<close> of \<open>constants\<close> with the operations of
  \<open>pathlib\<close> on it, the names in \<open>os.environ\<close>, and \<open>sys.argv\<close>.
\<close>

record 'p os_env =
  platform_system :: string
  windows_major :: int
  mac_ver :: string
  SRC :: 'p
  joinpath :: "'p \<Rightarrow> string \<Rightarrow> 'p"
  path_exists :: "'p \<Rightarrow> bool"
  path_str :: "'p \<Rightarrow> string"
  environ :: "string list"
  argv :: "string list"

text \<open>
  How a call ends: \<open>run_py()\<close> is called, after the reason has been chosen and the
  warning printed or not; or \<open>os.execv\<close> replaces the process, with the path and the
  argument list it is given; or an exception leaves the function.
\<close>

datatype outcome =
    RunPy string "string option"
  | Execv string "string list"
  | Raised py_error

definition windows_reason :: string where
  "windows_reason =
     ''&cWindows < 10 detected, falling back to python version since rust 1.76+ do not support it.''"

definition macos_reason :: "string \<Rightarrow> string" where
  "macos_reason v =
     ''&cmacOS '' @ v
       @ '' detected, falling back to python version since rust 1.74+ do not support it.''"

text \<open>The third reason holds the character U+221E, three bytes in UTF-8.\<close>

definition missing_reason :: string where
  "missing_reason =
     ''&cThe executable for hyfetch v2 (rust) is not found, falling back to legacy v1.99.''
       @ [CHR 0xE2, CHR 0x88, CHR 0x9E] @ '' (python).''"

definition warning_text :: "string \<Rightarrow> string" where
  "warning_text reason =
     reason @ [CHR 0x0A]
       @ ''You can add environment variable HYFETCH_DONT_WARN_RUST=1 to suppress this warning.''
       @ [CHR 0x0A]"

text \<open>
  What \<open>printc\<close> is given, when \<open>HYFETCH_DONT_WARN_RUST\<close> is not a name of the
  environment; nothing is printed otherwise.
\<close>

definition printed_warning :: "'p os_env \<Rightarrow> string \<Rightarrow> string option" where
  "printed_warning E reason =
     (if ''HYFETCH_DONT_WARN_RUST'' \<notin> set (environ E) then Some (warning_text reason) else None)"

text \<open>The path \<open>SRC / 'rust' / ('hyfetch.exe' if ... else 'hyfetch')\<close>.\<close>

definition rust_executable :: "'p os_env \<Rightarrow> 'p" where
  "rust_executable E =
     joinpath E (joinpath E (SRC E) ''rust'')
       (if platform_system E = ''Windows'' then ''hyfetch.exe'' else ''hyfetch'')"

text \<open>
  The \<open>if\<close>/\<open>elif\<close> that sets \<open>reason\<close> from the platform. \<open>mac_ver and ...\<close> does not
  parse an empty version.
\<close>

definition platform_reason :: "'p os_env \<Rightarrow> py_error + string option" where
  "platform_reason E =
     (if platform_system E = ''Windows'' \<and> windows_major E < 10 then Inr (Some windows_reason)
      else if platform_system E = ''Darwin'' then
        (if mac_ver E \<noteq> [] then
           (case version_tuple (mac_ver E) of
              Inl e \<Rightarrow> Inl e
            | Inr vs \<Rightarrow>
                Inr (if tuple_less vs [10, 12] then Some (macos_reason (mac_ver E)) else None))
         else Inr None)
      else Inr None)"

definition run_rust :: "'p os_env \<Rightarrow> outcome" where
  "run_rust E =
     (case platform_reason E of
        Inl e \<Rightarrow> Raised e
      | Inr reason0 \<Rightarrow>
          let pd = rust_executable E;
              reason = (if reason0 = None \<and> \<not> path_exists E pd then Some missing_reason
                        else reason0)
          in (case reason of
                Some r \<Rightarrow> RunPy r (printed_warning E r)
              | None \<Rightarrow> Execv (path_str E pd) (path_str E pd # drop 1 (argv E))))"

text \<open>
  ``Below 10.12'' on the numbers of a version: the major number is below 10, or it
  is 10 and the minor number, 0 when there is none, is below 12.
\<close>

definition below_10_12 :: "int list \<Rightarrow> bool" where
  "below_10_12 vs =
     (case vs of
        [] \<Rightarrow> True
      | major # rest \<Rightarrow>
          major < 10 \<or> (major = 10 \<and> (case rest of [] \<Rightarrow> True | minor # others \<Rightarrow> minor < 12)))"

text \<open>
  An environment for examples: paths are strings joined by \<open>/\<close> under the root
  \<open>/opt/hyfetch\<close>, and the executable is there or not as the flag says.
\<close>

definition example_env ::
  "string \<Rightarrow> int \<Rightarrow> string \<Rightarrow> bool \<Rightarrow> string list \<Rightarrow> string list \<Rightarrow> string os_env" where
  "example_env system major version present names arguments =
     \<lparr>platform_system = system, windows_major = major, mac_ver = version,
      SRC = ''/opt/hyfetch'', joinpath = (\<lambda>p s. p @ ''/'' @ s),
      path_exists = (\<lambda>p. present), path_str = (\<lambda>p. p),
      environ = names, argv = arguments\<rparr>"

text \<open>
  A record with the defaults of the dataclass and the given custom presets, for
  stating examples. \<open>preset\<close> and \<open>mode\<close> have no default; the alignment stands as
  the name of its mode.
\<close>

definition config_with_presets ::
  "(string \<times> string list) list option \<Rightarrow> (real, string) Config" where
  "config_with_presets presets =
     \<lparr>preset = ''rainbow'', mode = ''rgb'', light_dark = ''dark'', lightness = None,
      color_align = ''horizontal'', backend = ''neofetch'', args = None, distro = None,
      pride_month_shown = [], pride_month_disable = False, custom_ascii_path = None,
      custom_presets = presets\<rparr>"

section \<open>presets.py: the palette registry\<close>

text \<open>
  An entry of \<open>PRESETS\<close> is written either as \<open>ColorProfile([...])\<close> on a list of
  strings, or as \<open>ColorProfile(ColorProfile([...]).with_weights([...]))\<close>: a profile
  of the weighted colours of an inner profile.
\<close>

datatype preset_source =
    Plain "string list"
  | Weighted "string list" "int list"

text \<open>The strings an entry is written with.\<close>

fun preset_strings :: "preset_source \<Rightarrow> string list" where
  "preset_strings (Plain ss) = ss"
| "preset_strings (Weighted ss ws) = ss"

text \<open>The profile an entry evaluates to when the module is loaded.\<close>

fun preset_profile ::
  "(string \<Rightarrow> py_error + 'c) \<Rightarrow> preset_source \<Rightarrow> py_error + 'c ColorProfile" where
  "preset_profile hex (Plain ss) = ColorProfile_init hex (Strs ss)"
| "preset_profile hex (Weighted ss ws) =
     (case ColorProfile_init hex (Strs ss) of
        Inl e \<Rightarrow> Inl e
      | Inr inner \<Rightarrow>
          (case with_weights inner ws of
             Inl e \<Rightarrow> Inl e
           | Inr cs \<Rightarrow> ColorProfile_init hex (Rgbs cs)))"

text \<open>
  The dictionary \<open>PRESETS\<close>, lines 167 to 987: every name with its literal, in the
  order of the source. No name occurs twice.
\<close>

definition PRESETS :: "(string \<times> preset_source) list" where
  "PRESETS = [
    (''rainbow'', Plain
       [''#E50000'', ''#FF8D00'', ''#FFEE00'', ''#028121'', ''#004CFF'', ''#770088'']),
    (''transgender'', Plain
       [''#55CDFD'', ''#F6AAB7'', ''#FFFFFF'', ''#F6AAB7'', ''#55CDFD'']),
    (''nonbinary'', Plain
       [''#FCF431'', ''#FCFCFC'', ''#9D59D2'', ''#282828'']),
    (''xenogender'', Plain
       [''#FF6692'', ''#FF9A98'', ''#FFB883'', ''#FBFFA8'', ''#85BCFF'',
        ''#9D85FF'', ''#A510FF'']),
    (''agender'', Plain
       [''#000000'', ''#BABABA'', ''#FFFFFF'', ''#BAF484'', ''#FFFFFF'',
        ''#BABABA'', ''#000000'']),
    (''queer'', Plain
       [''#B57FDD'', ''#FFFFFF'', ''#49821E'']),
    (''genderfluid'', Plain
       [''#FE76A2'', ''#FFFFFF'', ''#BF12D7'', ''#000000'', ''#303CBE'']),
    (''bisexual'', Plain
       [''#D60270'', ''#9B4F96'', ''#0038A8'']),
    (''pansexual'', Plain
       [''#FF1C8D'', ''#FFD700'', ''#1AB3FF'']),
    (''polysexual'', Plain
       [''#F714BA'', ''#01D66A'', ''#1594F6'']),
    (''omnisexual'', Plain
       [''#FE9ACE'', ''#FF53BF'', ''#200044'', ''#6760FE'', ''#8EA6FF'']),
    (''omniromantic'', Plain
       [''#FEC8E4'', ''#FDA1DB'', ''#89739A'', ''#ABA7FE'', ''#BFCEFF'']),
    (''gay-men'', Plain
       [''#078D70'', ''#98E8C1'', ''#FFFFFF'', ''#7BADE2'', ''#3D1A78'']),
    (''lesbian'', Plain
       [''#D62800'', ''#FF9B56'', ''#FFFFFF'', ''#D462A6'', ''#A40062'']),
    (''abrosexual'', Plain
       [''#46D294'', ''#A3E9CA'', ''#FFFFFF'', ''#F78BB3'', ''#EE1766'']),
    (''asexual'', Plain
       [''#000000'', ''#A4A4A4'', ''#FFFFFF'', ''#810081'']),
    (''aromantic'', Plain
       [''#3BA740'', ''#A8D47A'', ''#FFFFFF'', ''#ABABAB'', ''#000000'']),
    (''aroace1'', Plain
       [''#E28C00'', ''#ECCD00'', ''#FFFFFF'', ''#62AEDC'', ''#203856'']),
    (''aroace2'', Plain
       [''#000000'', ''#810081'', ''#A4A4A4'', ''#FFFFFF'', ''#A8D47A'', ''#3BA740'']),
    (''aroace3'', Plain
       [''#3BA740'', ''#A8D47A'', ''#FFFFFF'', ''#ABABAB'', ''#000000'',
        ''#A4A4A4'', ''#FFFFFF'', ''#810081'']),
    (''autosexual'', Plain
       [''#99D9EA'', ''#7F7F7F'']),
    (''intergender'', Plain
       [''#900DC2'', ''#900DC2'', ''#FFE54F'', ''#900DC2'', ''#900DC2'']),
    (''greygender'', Plain
       [''#B3B3B3'', ''#B3B3B3'', ''#FFFFFF'', ''#062383'', ''#062383'',
        ''#FFFFFF'', ''#535353'', ''#535353'']),
    (''akiosexual'', Plain
       [''#F9485E'', ''#FEA06A'', ''#FEF44C'', ''#FFFFFF'', ''#000000'']),
    (''bigender'', Plain
       [''#C479A2'', ''#EDA5CD'', ''#D6C7E8'', ''#FFFFFF'', ''#D6C7E8'',
        ''#9AC7E8'', ''#6D82D1'']),
    (''demigender'', Plain
       [''#7F7F7F'', ''#C4C4C4'', ''#FBFF75'', ''#FFFFFF'', ''#FBFF75'',
        ''#C4C4C4'', ''#7F7F7F'']),
    (''demiboy'', Plain
       [''#7F7F7F'', ''#C4C4C4'', ''#9DD7EA'', ''#FFFFFF'', ''#9DD7EA'',
        ''#C4C4C4'', ''#7F7F7F'']),
    (''demigirl'', Plain
       [''#7F7F7F'', ''#C4C4C4'', ''#FDADC8'', ''#FFFFFF'', ''#FDADC8'',
        ''#C4C4C4'', ''#7F7F7F'']),
    (''transmasculine'', Plain
       [''#FF8ABD'', ''#CDF5FE'', ''#9AEBFF'', ''#74DFFF'', ''#9AEBFF'',
        ''#CDF5FE'', ''#FF8ABD'']),
    (''transfeminine'', Plain
       [''#73DEFF'', ''#FFE2EE'', ''#FFB5D6'', ''#FF8DC0'', ''#FFB5D6'',
        ''#FFE2EE'', ''#73DEFF'']),
    (''genderfaun'', Plain
       [''#FCD689'', ''#FFF09B'', ''#FAF9CD'', ''#FFFFFF'', ''#8EDED9'',
        ''#8CACDE'', ''#9782EC'']),
    (''demifaun'', Plain
       [''#7F7F7F'', ''#7F7F7F'', ''#C6C6C6'', ''#C6C6C6'', ''#FCC688'',
        ''#FFF19C'', ''#FFFFFF'', ''#8DE0D5'', ''#9682EC'', ''#C6C6C6'',
        ''#C6C6C6'', ''#7F7F7F'', ''#7F7F7F'']),
    (''genderfae'', Plain
       [''#97C3A5'', ''#C3DEAE'', ''#F9FACD'', ''#FFFFFF'', ''#FCA2C4'',
        ''#DB8AE4'', ''#A97EDD'']),
    (''demifae'', Plain
       [''#7F7F7F'', ''#7F7F7F'', ''#C5C5C5'', ''#C5C5C5'', ''#97C3A4'',
        ''#C4DEAE'', ''#FFFFFF'', ''#FCA2C5'', ''#AB7EDF'', ''#C5C5C5'',
        ''#C5C5C5'', ''#7F7F7F'', ''#7F7F7F'']),
    (''neutrois'', Plain
       [''#FFFFFF'', ''#1F9F00'', ''#000000'']),
    (''biromantic1'', Plain
       [''#8869A5'', ''#D8A7D8'', ''#FFFFFF'', ''#FDB18D'', ''#151638'']),
    (''biromantic2'', Plain
       [''#740194'', ''#AEB1AA'', ''#FFFFFF'', ''#AEB1AA'', ''#740194'']),
    (''autoromantic'', Plain
       [''#99D9EA'', ''#99D9EA'', ''#3DA542'', ''#7F7F7F'', ''#7F7F7F'']),
    (''boyflux2'', Weighted
       [''#E48AE4'', ''#9A81B4'', ''#55BFAB'', ''#FFFFFF'', ''#A8A8A8'',
        ''#81D5EF'', ''#69ABE5'', ''#5276D4'']
       [1, 1, 1, 1, 1, 5, 5, 5]),
    (''girlflux'', Plain
       [''f9e6d7'', ''f2526c'', ''bf0311'', ''e9c587'', ''bf0311'', ''f2526c'',
        ''f9e6d7'']),
    (''genderflux'', Plain
       [''f47694'', ''f2a2b9'', ''cecece'', ''7ce0f7'', ''3ecdf9'', ''fff48d'']),
    (''finsexual'', Plain
       [''#B18EDF'', ''#D7B1E2'', ''#F7CDE9'', ''#F39FCE'', ''#EA7BB3'']),
    (''unlabeled1'', Plain
       [''#EAF8E4'', ''#FDFDFB'', ''#E1EFF7'', ''#F4E2C4'']),
    (''unlabeled2'', Plain
       [''#250548'', ''#FFFFFF'', ''#F7DCDA'', ''#EC9BEE'', ''#9541FA'', ''#7D2557'']),
    (''pangender'', Plain
       [''#FFF798'', ''#FEDDCD'', ''#FFEBFB'', ''#FFFFFF'', ''#FFEBFB'',
        ''#FEDDCD'', ''#FFF798'']),
    (''pangender.contrast'', Plain
       [''#ffe87f'', ''#fcbaa6'', ''#fbc9f3'', ''#FFFFFF'', ''#fbc9f3'',
        ''#fcbaa6'', ''#ffe87f'']),
    (''gendernonconforming1'', Weighted
       [''#50284d'', ''#96467b'', ''#5c96f7'', ''#ffe6f7'', ''#5c96f7'',
        ''#96467b'', ''#50284d'']
       [4, 1, 1, 1, 1, 1, 4]),
    (''gendernonconforming2'', Plain
       [''#50284d'', ''#96467b'', ''#5c96f7'', ''#ffe6f7'', ''#5c96f7'',
        ''#96467b'', ''#50284d'']),
    (''femboy'', Plain
       [''#d260a5'', ''#e4afcd'', ''#fefefe'', ''#57cef8'', ''#fefefe'',
        ''#e4afcd'', ''#d260a5'']),
    (''tomboy'', Plain
       [''#2f3fb9'', ''#613a03'', ''#fefefe'', ''#f1a9b7'', ''#fefefe'',
        ''#613a03'', ''#2f3fb9'']),
    (''gynesexual'', Plain
       [''#F4A9B7'', ''#903F2B'', ''#5B953B'']),
    (''androsexual'', Plain
       [''#01CCFF'', ''#603524'', ''#B799DE'']),
    (''gendervoid'', Plain
       [''#081149'', ''#4B484B'', ''#000000'', ''#4B484B'', ''#081149'']),
    (''voidgirl'', Plain
       [''#180827'', ''#7A5A8B'', ''#E09BED'', ''#7A5A8B'', ''#180827'']),
    (''voidboy'', Plain
       [''#0B130C'', ''#547655'', ''#66B969'', ''#547655'', ''#0B130C'']),
    (''nonhuman-unity'', Plain
       [''#177B49'', ''#FFFFFF'', ''#593C90'']),
    (''plural'', Plain
       [''#2D0625'', ''#543475'', ''#7675C3'', ''#89C7B0'', ''#F3EDBD'']),
    (''fraysexual'', Plain
       [''#226CB5'', ''#94E7DD'', ''#FFFFFF'', ''#636363'']),
    (''bear'', Plain
       [''#623804'', ''#D56300'', ''#FEDD63'', ''#FEE6B8'', ''#FFFFFF'', ''#555555'']),
    (''butch'', Plain
       [''#D72800'', ''#F17623'', ''#FF9C56'', ''#FFFDF6'', ''#FFCE89'',
        ''#FEAF02'', ''#A37000'']),
    (''leather'', Plain
       [''#000000'', ''#252580'', ''#000000'', ''#252580'', ''#FFFFFF'',
        ''#252580'', ''#000000'', ''#252580'', ''#000000'']),
    (''otter'', Plain
       [''#263881'', ''#5C9DC9'', ''#FFFFFF'', ''#3A291D'', ''#5C9DC9'', ''#263881'']),
    (''twink'', Plain
       [''#FFB2FF'', ''#FFFFFF'', ''#FFFF81'']),
    (''kenochoric'', Plain
       [''#000000'', ''#2E1569'', ''#824DB7'', ''#C7A1D6'']),
    (''veldian'', Plain
       [''#D182A8'', ''#FAF6E0'', ''#69ACBE'', ''#5D448F'', ''#3A113E'']),
    (''solian'', Plain
       [''#FFF8ED'', ''#FFE7A8'', ''#F1B870'', ''#A56058'', ''#46281E'']),
    (''lunian'', Plain
       [''#2F0E62'', ''#6F41B1'', ''#889FDF'', ''#7DDFD5'', ''#D2F2E2'']),
    (''polyam'', Plain
       [''#FFFFFF'', ''#FCBF00'', ''#009FE3'', ''#E50051'', ''#340C46'']),
    (''sapphic'', Plain
       [''#FD8BA8'', ''#FBF2FF'', ''#C76BC5'', ''#FDD768'', ''#C76BC5'',
        ''#FBF2FF'', ''#FD8BA8'']),
    (''androgyne'', Plain
       [''#FE007F'', ''#9832FF'', ''#00B8E7'']),
    (''interprogress'', Plain
       [''#FFD800'', ''#7902AA'', ''#FFFFFF'', ''#FFAFC8'', ''#74D7EE'',
        ''#613915'', ''#000000'', ''#E50000'', ''#FF8D00'', ''#FFEE00'',
        ''#028121'', ''#004CFF'', ''#770088'']),
    (''progress'', Plain
       [''#FFFFFF'', ''#FFAFC8'', ''#74D7EE'', ''#613915'', ''#000000'',
        ''#E50000'', ''#FF8D00'', ''#FFEE00'', ''#028121'', ''#004CFF'', ''#770088'']),
    (''intersex'', Plain
       [''#FFD800'', ''#FFD800'', ''#7902AA'', ''#FFD800'', ''#FFD800'']),
    (''old-polyam'', Plain
       [''#0000FF'', ''#FF0000'', ''#FFFF00'', ''#FF0000'', ''#000000'']),
    (''equal-rights'', Plain
       [''#0000FF'', ''#0000FF'', ''#FFFF00'', ''#0000FF'', ''#0000FF'',
        ''#FFFF00'', ''#0000FF'', ''#0000FF'']),
    (''drag'', Plain
       [''#CC67FF'', ''#FFFFFF'', ''#FFA3E3'', ''#FFFFFF'', ''#3366FF'']),
    (''pronounfluid'', Plain
       [''#ffb3f9'', ''#ffffff'', ''#d1fdcb'', ''#c7b0ff'', ''#000000'', ''#b8ccff'']),
    (''pronounflux'', Plain
       [''#fdb3f8'', ''#b6ccfa'', ''#18ddd3'', ''#64ff89'', ''#ff7690'', ''#ffffff'']),
    (''exipronoun'', Plain
       [''#1c3d34'', ''#ffffff'', ''#321848'', ''#000000'']),
    (''neopronoun'', Plain
       [''#bcec64'', ''#ffffff'', ''#38077a'']),
    (''neofluid'', Plain
       [''#ffeca0'', ''#ffffff'', ''#ffeca0'', ''#38087a'', ''#bcec64'']),
    (''genderqueer'', Plain
       [''#b57edc'', ''#b57edc'', ''#ffffff'', ''#ffffff'', ''#4a8123'', ''#4a8123'']),
    (''cisgender'', Plain
       [''#D70270'', ''#0038A7'']),
    (''baker'', Plain
       [''#F23D9E'', ''#F80A24'', ''#F78022'', ''#F9E81F'', ''#1E972E'',
        ''#1B86BC'', ''#243897'', ''#6F0A82'']),
    (''caninekin'', Plain
       [''#2d2822'', ''#543d25'', ''#9c754d'', ''#e8dac2'', ''#cfad8c'',
        ''#b77b55'', ''#954e31'']),
    (''beiyang'', Plain
       [''#DF1B12'', ''#FFC600'', ''#01639D'', ''#FFFFFF'', ''#000000'']),
    (''burger'', Plain
       [''#F3A26A'', ''#498701'', ''#FD1C13'', ''#7D3829'', ''#F3A26A'']),
    (''throatlozenges'', Plain
       [''#2759DA'', ''#03940D'', ''#F5F100'', ''#F59B00'', ''#B71212'']),
    (''band'', Plain
       [''#2670c0'', ''#f5bd00'', ''#dc0045'', ''#e0608e''])]"

section \<open>Length fitting\<close>

lemma py_index_nonneg: "0 \<le> i \<Longrightarrow> i < int (length xs) \<Longrightarrow> py_index xs i = Inr (nat i)"
  by (simp add: py_index_def)

lemma py_index_neg: "i < 0 \<Longrightarrow> - int (length xs) \<le> i \<Longrightarrow> py_index xs i = Inr (nat (int (length xs) + i))"
  by (simp add: py_index_def)

lemma sum_list_incr: "j < length ws \<Longrightarrow> sum_list (ws[j := ws ! j + 1]) = sum_list ws + (1::int)"
proof (induction ws arbitrary: j)
  case Nil
  then show ?case by simp
next
  case (Cons w ws)
  then show ?case by (cases j) simp_all
qed

lemma border_loop_ok:
  assumes "even e" "0 \<le> e" "0 \<le> b" "2 * b + e \<le> int (length ws)"
  shows "\<exists>ws'. border_loop e ws b = Inr ws' \<and> length ws' = length ws
           \<and> sum_list ws' = sum_list ws + e
           \<and> (\<forall>i < length ws. ws' ! i = ws ! i
                 + (if b \<le> int i \<and> int i < b + e div 2 then 1 else 0)
                 + (if int (length ws) - b - e div 2 \<le> int i \<and> int i < int (length ws) - b then 1 else 0))"
  using assms
proof (induction e ws b rule: border_loop.induct)
  case (1 extras weights border_i)
  show ?case
  proof (cases "extras > 0")
    case False
    with "1.prems" have "extras = 0" by simp
    then show ?thesis by (simp add: border_loop.simps)
  next
    case True
    with "1.prems" have e2: "2 \<le> extras" by presburger
    define n where "n = length weights"
    have b_lt: "border_i < int n" and m_ok: "border_i + 1 \<le> int n"
      using "1.prems" e2 by (simp_all add: n_def)
    define w1 where "w1 = weights[nat border_i := weights ! nat border_i + 1]"
    define m where "m = nat (int n - (border_i + 1))"
    define w2 where "w2 = w1[m := w1 ! m + 1]"
    have s1: "py_incr weights border_i = Inr w1"
      using "1.prems" b_lt by (simp add: py_incr_def py_index_nonneg w1_def n_def)
    have len1: "length w1 = n" by (simp add: w1_def n_def)
    have s2: "py_incr w1 (- (border_i + 1)) = Inr w2"
    proof -
      have eq: "int n + (- border_i - 1) = int n - (border_i + 1)" by simp
      show ?thesis
        using "1.prems" m_ok len1 by (simp add: py_incr_def py_index_neg w2_def m_def eq)
    qed
    have len2: "length w2 = n" by (simp add: w2_def len1)
    have m_lt: "m < n" using "1.prems" m_ok by (simp add: m_def)
    have b_nat: "nat border_i < n" using "1.prems" b_lt by simp
    have sum2: "sum_list w2 = sum_list weights + 2"
      using sum_list_incr[of "nat border_i" weights] sum_list_incr[of m w1] m_lt b_nat len1
      by (simp add: w1_def w2_def n_def)
    have IH: "\<exists>ws'. border_loop (extras - 2) w2 (border_i + 1) = Inr ws' \<and> length ws' = length w2
           \<and> sum_list ws' = sum_list w2 + (extras - 2)
           \<and> (\<forall>i < length w2. ws' ! i = w2 ! i
                 + (if border_i + 1 \<le> int i \<and> int i < border_i + 1 + (extras - 2) div 2 then 1 else 0)
                 + (if int (length w2) - (border_i + 1) - (extras - 2) div 2 \<le> int i \<and> int i < int (length w2) - (border_i + 1) then 1 else 0))"
      using "1.IH"[OF True s1 s2] "1.prems" e2 len2 by (simp add: n_def)
    then obtain ws' where r: "border_loop (extras - 2) w2 (border_i + 1) = Inr ws'"
      and l: "length ws' = n" and s: "sum_list ws' = sum_list w2 + (extras - 2)"
      and p: "\<forall>i < n. ws' ! i = w2 ! i
                 + (if border_i + 1 \<le> int i \<and> int i < border_i + 1 + (extras - 2) div 2 then 1 else 0)
                 + (if int n - (border_i + 1) - (extras - 2) div 2 \<le> int i \<and> int i < int n - (border_i + 1) then 1 else 0)"
      using len2 by auto
    have res: "border_loop extras weights border_i = Inr ws'"
      using True s1 s2 r by (subst border_loop.simps) simp
    have half: "(extras - 2) div 2 = extras div 2 - 1" by simp
    have w2_at: "w2 ! i = weights ! i + (if int i = border_i then 1 else 0) + (if int i = int n - (border_i + 1) then 1 else 0)"
      if "i < n" for i
    proof -
      have "nat border_i \<noteq> m" using "1.prems" e2 by (simp add: m_def n_def) 
      then show ?thesis
        using that "1.prems" m_ok b_nat m_lt len1
        by (auto simp add: w2_def w1_def m_def n_def nth_list_update)
    qed
    have point: "ws' ! i = weights ! i
                 + (if border_i \<le> int i \<and> int i < border_i + extras div 2 then 1 else 0)
                 + (if int n - border_i - extras div 2 \<le> int i \<and> int i < int n - border_i then 1 else 0)"
      if "i < n" for i
    proof -
      from p that have "ws' ! i = w2 ! i
                 + (if border_i + 1 \<le> int i \<and> int i < border_i + 1 + (extras - 2) div 2 then 1 else 0)
                 + (if int n - (border_i + 1) - (extras - 2) div 2 \<le> int i \<and> int i < int n - (border_i + 1) then 1 else 0)"
        by blast
      then show ?thesis
        using w2_at[OF that] e2 "1.prems" unfolding half n_def by (auto split: if_splits)
    qed
    show ?thesis
      using res l s sum2 point by (simp add: n_def)
  qed
qed

lemma length_weights_ok:
  assumes "0 < n"
  shows "\<exists>ws. length_weights n len = Inr ws \<and> length ws = nat n
           \<and> sum_list ws = len
           \<and> (\<forall>i < nat n. ws ! i = policy_weight n len (int i))"
proof -
  define base where "base = len div n"
  define extras where "extras = len mod n"
  define ws0 where "ws0 = replicate (nat n) base"
  have ex_bounds: "0 \<le> extras" "extras < n" using assms by (simp_all add: extras_def)
  have len0: "length ws0 = nat n" by (simp add: ws0_def)
  have sum0: "sum_list ws0 = n * base" using assms by (simp add: ws0_def sum_list_replicate)
  have total: "n * base + extras = len" by (simp add: base_def extras_def)
  show ?thesis
  proof (cases "extras mod 2 = 1")
    case True
    then have odd_e: "odd extras" by presburger
    define c where "c = nat (n div 2)"
    define ws1 where "ws1 = ws0[c := ws0 ! c + 1]"
    have c_lt: "c < nat n" using assms by (simp add: c_def)
    have i1: "py_incr ws0 (n div 2) = Inr ws1"
      using assms by (simp add: py_incr_def py_index_nonneg len0 ws1_def c_def)
    have len1: "length ws1 = nat n" by (simp add: ws1_def len0)
    have sum1: "sum_list ws1 = n * base + 1"
      using sum_list_incr[of c ws0] c_lt by (simp add: ws1_def len0 sum0)
    have "even (extras - 1)" "0 \<le> extras - 1" "(0::int) \<le> 0" "2 * 0 + (extras - 1) \<le> int (length ws1)"
      using odd_e ex_bounds assms by (simp_all add: len1) presburger
    from border_loop_ok[OF this] obtain ws' where
      r: "border_loop (extras - 1) ws1 0 = Inr ws'" and l: "length ws' = nat n"
      and s: "sum_list ws' = sum_list ws1 + (extras - 1)"
      and p: "\<forall>i < nat n. ws' ! i = ws1 ! i
                 + (if 0 \<le> int i \<and> int i < 0 + (extras - 1) div 2 then 1 else 0)
                 + (if int (nat n) - 0 - (extras - 1) div 2 \<le> int i \<and> int i < int (nat n) - 0 then 1 else 0)"
      unfolding len1 by blast
    have lw: "length_weights n len = Inr ws'"
      using assms True i1 r
      by (simp add: length_weights_def Let_def base_def[symmetric] extras_def[symmetric] ws0_def[symmetric])
    have half: "(extras - 1) div 2 = extras div 2" using odd_e by presburger
    have pt: "ws' ! i = policy_weight n len (int i)" if "i < nat n" for i
    proof -
      have "ws1 ! i = base + (if int i = n div 2 then 1 else 0)"
        using that c_lt assms by (auto simp add: ws1_def ws0_def c_def nth_list_update)
      moreover have "ws' ! i = ws1 ! i
                 + (if 0 \<le> int i \<and> int i < 0 + (extras - 1) div 2 then 1 else 0)
                 + (if int (nat n) - 0 - (extras - 1) div 2 \<le> int i \<and> int i < int (nat n) - 0 then 1 else 0)"
        using p that by blast
      ultimately show ?thesis
        using that assms odd_e unfolding half
        by (simp add: policy_weight_def base_def[symmetric] extras_def[symmetric])
    qed
    show ?thesis using lw l s sum1 total pt by simp
  next
    case False
    then have even_e: "even extras" by presburger
    have "even extras" "0 \<le> extras" "(0::int) \<le> 0" "2 * 0 + extras \<le> int (length ws0)"
      using even_e ex_bounds assms by (simp_all add: len0)
    from border_loop_ok[OF this] obtain ws' where
      r: "border_loop extras ws0 0 = Inr ws'" and l: "length ws' = nat n"
      and s: "sum_list ws' = sum_list ws0 + extras"
      and p: "\<forall>i < nat n. ws' ! i = ws0 ! i
                 + (if 0 \<le> int i \<and> int i < 0 + extras div 2 then 1 else 0)
                 + (if int (nat n) - 0 - extras div 2 \<le> int i \<and> int i < int (nat n) - 0 then 1 else 0)"
      unfolding len0 by blast
    have lw: "length_weights n len = Inr ws'"
      using assms False r
      by (simp add: length_weights_def Let_def base_def[symmetric] extras_def[symmetric] ws0_def[symmetric])
    have pt: "ws' ! i = policy_weight n len (int i)" if "i < nat n" for i
    proof -
      have "ws0 ! i = base" using that by (simp add: ws0_def)
      moreover have "ws' ! i = ws0 ! i
                 + (if 0 \<le> int i \<and> int i < 0 + extras div 2 then 1 else 0)
                 + (if int (nat n) - 0 - extras div 2 \<le> int i \<and> int i < int (nat n) - 0 then 1 else 0)"
        using p that by blast
      ultimately show ?thesis
        using that assms even_e
        by (simp add: policy_weight_def base_def[symmetric] extras_def[symmetric])
    qed
    show ?thesis using lw l s sum0 total pt by simp
  qed
qed

lemma with_weights_from_ok:
  "i + length ws \<le> length cs \<Longrightarrow>
   with_weights_from cs i ws =
     Inr (concat (map (\<lambda>k. replicate (nat (ws ! k)) (cs ! (i + k))) [0..<length ws]))"
proof (induction ws arbitrary: i)
  case Nil
  then show ?case by simp
next
  case (Cons w ws)
  have "[0..<length (w # ws)] = 0 # map Suc [0..<length ws]"
    by (simp add: upt_conv_Cons map_Suc_upt del: upt_Suc)
  then show ?case using Cons by (simp add: comp_def del: upt_Suc)
qed

lemma length_concat_replicate:
  "length (concat (map (\<lambda>k. replicate (f k) (g k)) ks)) = sum_list (map f ks)"
  by (induction ks) simp_all

lemma sum_list_nat_nonneg:
  "\<forall>w \<in> set ws. (0::int) \<le> w \<Longrightarrow> int (sum_list (map nat ws)) = sum_list ws"
  by (induction ws) simp_all

lemma policy_weight_nonneg: "0 < n \<Longrightarrow> 0 \<le> len \<Longrightarrow> 0 \<le> policy_weight n len i"
  by (simp add: policy_weight_def pos_imp_zdiv_nonneg_iff)

lemma with_length_fits:
  assumes ne: "colors p \<noteq> []" and pos: "0 \<le> len"
  shows "\<exists>ws ys. length_weights (int (length (colors p))) len = Inr ws
        \<and> ws = map (\<lambda>i. policy_weight (int (length (colors p))) len (int i))
                   [0..<length (colors p)]
        \<and> with_length p len = Inr ys
        \<and> ys = concat (map (\<lambda>i. replicate (nat (ws ! i)) (colors p ! i))
                           [0..<length (colors p)])
        \<and> int (length ys) = len"
proof -
  define cs where "cs = colors p"
  define n where "n = int (length cs)"
  have n_pos: "0 < n" using ne by (simp add: n_def cs_def)
  from length_weights_ok[OF n_pos, of len] obtain ws where
    lw: "length_weights n len = Inr ws" and l: "length ws = length cs"
    and s: "sum_list ws = len" and p: "\<forall>i < length cs. ws ! i = policy_weight n len (int i)"
    by (auto simp add: n_def)
  have ws_eq: "ws = map (\<lambda>i. policy_weight n len (int i)) [0..<length cs]"
  proof (rule nth_equalityI)
    show "length ws = length (map (\<lambda>i. policy_weight n len (int i)) [0..<length cs])"
      by (simp add: l)
  next
    fix i assume "i < length ws"
    then have i_lt: "i < length cs" by (simp add: l)
    then have "ws ! i = policy_weight n len (int i)" using p by blast
    then show "ws ! i = map (\<lambda>i. policy_weight n len (int i)) [0..<length cs] ! i"
      using i_lt by simp
  qed
  define ys where "ys = concat (map (\<lambda>i. replicate (nat (ws ! i)) (cs ! i)) [0..<length cs])"
  have wl: "with_length p len = Inr ys"
    using lw with_weights_from_ok[of 0 ws cs] l
    by (simp add: with_length_def with_weights_def n_def[symmetric] cs_def[symmetric] ys_def)
  have nonneg: "\<forall>w \<in> set ws. 0 \<le> w"
    using ws_eq policy_weight_nonneg[OF n_pos pos] by auto
  have "length ys = sum_list (map (\<lambda>i. nat (ws ! i)) [0..<length cs])"
    unfolding ys_def by (rule length_concat_replicate)
  also have "map (\<lambda>i. nat (ws ! i)) [0..<length cs] = map nat ws"
    by (rule nth_equalityI) (simp_all add: l)
  finally have "int (length ys) = len"
    using sum_list_nat_nonneg[OF nonneg] s by simp
  then show ?thesis using lw ws_eq wl ys_def unfolding n_def cs_def by blast
qed

lemma with_length_total:
  assumes "colors p \<noteq> []"
  shows "\<exists>ys. with_length p len = Inr ys"
proof -
  have "0 < int (length (colors p))" using assms by simp
  from length_weights_ok[OF this, of len] obtain ws where
    "length_weights (int (length (colors p))) len = Inr ws" "length ws = length (colors p)"
    by auto
  then show ?thesis
    using with_weights_from_ok[of 0 ws "colors p"]
    by (simp add: with_length_def with_weights_def)
qed

lemma with_length_empty: "colors p = [] \<Longrightarrow> with_length p len = Inl ZeroDivisionError"
  by (simp add: with_length_def length_weights_def)

text \<open>
  Claim C1, as amended. For a profile of \<open>n \<ge> 1\<close> colours and a target length
  \<open>len \<ge> 0\<close>, \<open>with_length\<close> returns a sequence of exactly \<open>len\<close> colours: colour
  \<open>i\<close> repeated \<open>policy_weight n len i\<close> times, in the order of the profile. Three colours
  and length 10 weigh \<open>[3, 4, 3]\<close>; four colours and length 10 weigh \<open>[3, 2, 2, 3]\<close>, the
  two extra units going to the border positions 0 and 3.
\<close>

theorem with_length_policy:
  "colors p \<noteq> [] \<Longrightarrow> 0 \<le> len \<Longrightarrow>
     (\<exists>ws ys. length_weights (int (length (colors p))) len = Inr ws
        \<and> ws = map (\<lambda>i. policy_weight (int (length (colors p))) len (int i))
                   [0..<length (colors p)]
        \<and> with_length p len = Inr ys
        \<and> ys = concat (map (\<lambda>i. replicate (nat (ws ! i)) (colors p ! i))
                           [0..<length (colors p)])
        \<and> int (length ys) = len)
     \<and> length_weights 3 10 = Inr [3, 4, 3]
     \<and> length_weights 4 10 = Inr [3, 2, 2, 3]"
proof -
  assume "colors p \<noteq> []" and "0 \<le> len"
  then have "\<exists>ws ys. length_weights (int (length (colors p))) len = Inr ws
        \<and> ws = map (\<lambda>i. policy_weight (int (length (colors p))) len (int i))
                   [0..<length (colors p)]
        \<and> with_length p len = Inr ys
        \<and> ys = concat (map (\<lambda>i. replicate (nat (ws ! i)) (colors p ! i))
                           [0..<length (colors p)])
        \<and> int (length ys) = len"
    by (rule with_length_fits)
  moreover have "length_weights 3 10 = Inr [3, 4, 3]"
    by code_simp
  moreover have "length_weights 4 10 = Inr [3, 2, 2, 3]"
    by code_simp
  ultimately show ?thesis by blast
qed

text \<open>The theorem at the profile \<open>a, b, c\<close> and length 10.\<close>

theorem with_length_policy_witness:
  "colors \<lparr>raw = None, colors = ''abc''\<rparr> \<noteq> [] \<and> (0::int) \<le> 10 \<and>
   with_length \<lparr>raw = None, colors = ''abc''\<rparr> 10 = Inr ''aaabbbbccc''"
proof -
  have "with_length \<lparr>raw = None, colors = ''abc''\<rparr> 10 = Inr ''aaabbbbccc''"
    using with_length_policy[of "\<lparr>raw = None, colors = ''abc''\<rparr>" 10]
    by (auto simp add: numeral_eq_Suc upt_rec)
  then show ?thesis by simp
qed

text \<open>
  Claim C1 as it was written gives the weights \<open>[2, 3, 3, 2]\<close> for four colours
  and length 10; the code computes \<open>[3, 2, 2, 3]\<close>.
\<close>

theorem with_length_four_colors_counterexample:
  "length_weights 4 10 \<noteq> Inr [2, 3, 3, 2]"
  by code_simp

section \<open>Construction and de-duplication\<close>

lemma remove_duplicates_seen_eq:
  "remove_duplicates_seen seen xs =
     map (\<lambda>i. xs ! i) (filter (\<lambda>i. xs ! i \<notin> seen \<and> xs ! i \<notin> set (take i xs)) [0..<length xs])"
proof (induction xs arbitrary: seen)
  case Nil
  then show ?case by simp
next
  case (Cons x xs)
  have upt: "[0..<length (x # xs)] = 0 # map Suc [0..<length xs]"
    by (simp add: upt_conv_Cons map_Suc_upt del: upt_Suc)
  show ?case
  proof (cases "x \<in> seen")
    case True
    have "filter (\<lambda>i. xs ! i \<notin> seen \<and> xs ! i \<noteq> x \<and> xs ! i \<notin> set (take i xs)) [0..<length xs]
        = filter (\<lambda>i. xs ! i \<notin> seen \<and> xs ! i \<notin> set (take i xs)) [0..<length xs]"
      using True by (intro filter_cong) auto
    then show ?thesis
      using True Cons.IH[of seen] unfolding upt
      by (simp add: filter_map comp_def del: upt_Suc)
  next
    case False
    have "filter (\<lambda>i. xs ! i \<notin> seen \<and> xs ! i \<noteq> x \<and> xs ! i \<notin> set (take i xs)) [0..<length xs]
        = filter (\<lambda>i. xs ! i \<notin> insert x seen \<and> xs ! i \<notin> set (take i xs)) [0..<length xs]"
      by (intro filter_cong) auto
    then show ?thesis
      using False Cons.IH[of "insert x seen"] unfolding upt
      by (simp add: filter_map comp_def del: upt_Suc)
  qed
qed

lemma remove_duplicates_first: "remove_duplicates xs = first_occurrences xs"
  by (simp add: remove_duplicates_def first_occurrences_def remove_duplicates_seen_eq)

lemma remove_duplicates_seen_set:
  "set (remove_duplicates_seen seen xs) = set xs - seen"
  by (induction xs arbitrary: seen) auto

lemma remove_duplicates_seen_distinct:
  "distinct (remove_duplicates_seen seen xs)"
  by (induction xs arbitrary: seen) (auto simp add: remove_duplicates_seen_set)

lemma remove_duplicates_nonempty: "xs \<noteq> [] \<Longrightarrow> remove_duplicates xs \<noteq> []"
  by (cases xs) (simp_all add: remove_duplicates_def)

lemma ColorProfile_init_Rgbs:
  "cs \<noteq> [] \<Longrightarrow> ColorProfile_init hex (Rgbs cs) = Inr \<lparr>raw = None, colors = cs\<rparr>"
  by (cases cs) simp_all

lemma ColorProfile_init_Strs:
  "ss \<noteq> [] \<Longrightarrow> ColorProfile_init hex (Strs ss) =
     (case map_result hex ss of Inl e \<Rightarrow> Inl e | Inr cs \<Rightarrow> Inr \<lparr>raw = Some ss, colors = cs\<rparr>)"
  by (cases ss) (auto split: sum.splits)

text \<open>
  Claim C8. For every profile (a profile has at least one colour, the constructor
  refuses an empty list), \<open>unique_colors\<close> returns a new profile whose colours are
  the colours of the given one at their first occurrence, in the same order: no
  colour twice, no colour lost. Colours \<open>a, b, a, c\<close> give \<open>a, b, c\<close>. The function
  returns a value and changes nothing: the given profile is the same after the call.
\<close>

theorem unique_colors_first_occurrences:
  "colors p \<noteq> [] \<Longrightarrow>
     unique_colors hex p = Inr \<lparr>raw = None, colors = first_occurrences (colors p)\<rparr>
     \<and> distinct (first_occurrences (colors p))
     \<and> set (first_occurrences (colors p)) = set (colors p)
     \<and> (a \<noteq> b \<and> a \<noteq> c \<and> b \<noteq> c \<longrightarrow> remove_duplicates [a, b, a, c] = [a, b, c])"
proof -
  assume ne: "colors p \<noteq> []"
  have "unique_colors hex p = Inr \<lparr>raw = None, colors = first_occurrences (colors p)\<rparr>"
    using ColorProfile_init_Rgbs[OF remove_duplicates_nonempty[OF ne], of hex]
    by (simp add: unique_colors_def remove_duplicates_first)
  moreover have "distinct (first_occurrences (colors p))"
    using remove_duplicates_seen_distinct[of "{}" "colors p"]
    by (simp add: remove_duplicates_first[symmetric] remove_duplicates_def)
  moreover have "set (first_occurrences (colors p)) = set (colors p)"
    using remove_duplicates_seen_set[of "{}" "colors p"]
    by (simp add: remove_duplicates_first[symmetric] remove_duplicates_def)
  moreover have "a \<noteq> b \<and> a \<noteq> c \<and> b \<noteq> c \<longrightarrow> remove_duplicates [a, b, a, c] = [a, b, c]"
    by (simp add: remove_duplicates_def)
  ultimately show ?thesis by simp
qed

text \<open>The theorem at the colours \<open>A, B, A, C\<close>.\<close>

theorem unique_colors_first_occurrences_witness:
  "colors \<lparr>raw = None, colors = [RGB 1 1 1, RGB 2 2 2, RGB 1 1 1, RGB 3 3 3]\<rparr> \<noteq> []
   \<and> unique_colors RGB_from_hex \<lparr>raw = None, colors = [RGB 1 1 1, RGB 2 2 2, RGB 1 1 1, RGB 3 3 3]\<rparr>
       = Inr \<lparr>raw = None, colors = [RGB 1 1 1, RGB 2 2 2, RGB 3 3 3]\<rparr>"
proof -
  have "first_occurrences [RGB 1 1 1, RGB 2 2 2, RGB 1 1 1, RGB 3 3 3] = [RGB 1 1 1, RGB 2 2 2, RGB 3 3 3]"
    by (simp add: first_occurrences_def upt_rec)
  then show ?thesis
    using unique_colors_first_occurrences
            [where p = "\<lparr>raw = None, colors = [RGB 1 1 1, RGB 2 2 2, RGB 1 1 1, RGB 3 3 3]\<rparr>"
               and hex = RGB_from_hex and a = "RGB 1 1 1" and b = "RGB 2 2 2" and c = "RGB 3 3 3"]
    by simp
qed

section \<open>Hex colours and custom presets\<close>

lemma hex_char_codes:
  "c \<in> set ''0123456789abcdefABCDEF'' \<Longrightarrow> is_hex_digit c"
  by (auto simp add: is_hex_digit_def)

lemma nat_range_cases:
  "(48 \<le> k \<and> k \<le> 57) \<or> (65 \<le> k \<and> k \<le> 70) \<or> (97 \<le> k \<and> k \<le> 102) \<Longrightarrow>
   k = 48 \<or> k = 49 \<or> k = 50 \<or> k = 51 \<or> k = 52 \<or> k = 53 \<or> k = 54 \<or> k = 55 \<or> k = 56 \<or> k = 57
   \<or> k = 65 \<or> k = 66 \<or> k = 67 \<or> k = 68 \<or> k = 69 \<or> k = 70
   \<or> k = 97 \<or> k = 98 \<or> k = 99 \<or> k = 100 \<or> k = 101 \<or> k = (102::nat)"
  by arith

lemma hex_code_image:
  "(of_char ` set ''0123456789abcdefABCDEF'' :: nat set) =
     {48, 49, 50, 51, 52, 53, 54, 55, 56, 57, 97, 98, 99, 100, 101, 102, 65, 66, 67, 68, 69, 70}"
  by simp

lemma hex_digit_chars:
  assumes "is_hex_digit c"
  shows "c \<in> set ''0123456789abcdefABCDEF''"
proof -
  have "(of_char c :: nat) \<in> {48, 49, 50, 51, 52, 53, 54, 55, 56, 57, 97, 98, 99, 100, 101, 102, 65, 66, 67, 68, 69, 70}"
    using nat_range_cases[of "of_char c"] assms
    by (simp add: is_hex_digit_def Let_def) blast
  then have "(of_char c :: nat) \<in> of_char ` set ''0123456789abcdefABCDEF''"
    by (simp only: hex_code_image)
  then show ?thesis
    by (simp only: inj_image_mem_iff[OF inj_of_char])
qed

lemma hex_char_iff: "c \<in> set ''0123456789abcdefABCDEF'' \<longleftrightarrow> is_hex_digit c"
  using hex_char_codes hex_digit_chars by blast

lemma hex_color_ok_iff: "hex_color_ok s \<longleftrightarrow> is_hex_literal s"
proof (cases s)
  case Nil
  then show ?thesis by (simp add: hex_color_ok_def is_hex_literal_def)
next
  case (Cons m ds)
  have "list_all (\<lambda>c. c \<in> set ''0123456789abcdefABCDEF'') ds = list_all is_hex_digit ds"
    by (simp only: hex_char_iff)
  then show ?thesis
    using Cons by (auto simp add: hex_color_ok_def is_hex_literal_def)
qed

lemma check_hex_colors_eq:
  "check_hex_colors cols =
     (if list_all hex_color_ok cols then Inr ()
      else Inl (ValueError (''invalid hex color: '' @ first_bad_color cols)))"
  by (induction cols) (simp_all add: first_bad_color_def)

lemma build_hex_color_profile_eq:
  "build_hex_color_profile hex cols =
     (if list_all hex_color_ok cols then ColorProfile_init hex (Strs cols)
      else Inl (ValueError (''invalid hex color: '' @ first_bad_color cols)))"
  by (simp add: build_hex_color_profile_def check_hex_colors_eq)

lemma RGB_from_hex_fff: "RGB_from_hex ''#fff'' = Inr (RGB 255 255 255)"
  by (simp add: RGB_from_hex_def is_hex_literal_def is_hex_digit_def hex_digit_value_def)

lemma RGB_from_hex_red: "RGB_from_hex ''red'' = Inl (ValueError ''invalid hex color: red'')"
  by (simp add: RGB_from_hex_def is_hex_literal_def)

lemma map_result_ok:
  "\<forall>x \<in> set xs. \<not> isl (f x) \<Longrightarrow> map_result f xs = Inr (map (projr \<circ> f) xs)"
proof (induction xs)
  case Nil
  then show ?case by simp
next
  case (Cons x xs)
  then obtain y where "f x = Inr y" by (cases "f x") auto
  with Cons show ?case by simp
qed

lemma build_hex_color_profile_ok:
  assumes "cols \<noteq> []" "list_all hex_color_ok cols" "\<forall>s. hex_color_ok s \<longrightarrow> \<not> isl (hex s)"
  shows "build_hex_color_profile hex cols = Inr \<lparr>raw = Some cols, colors = map (projr \<circ> hex) cols\<rparr>"
proof -
  have "\<forall>c \<in> set cols. \<not> isl (hex c)"
    using assms(2,3) by (simp add: list_all_iff)
  then have "map_result hex cols = Inr (map (projr \<circ> hex) cols)"
    by (rule map_result_ok)
  then show ?thesis
    using assms(1,2) by (simp add: build_hex_color_profile_eq ColorProfile_init_Strs)
qed

lemma update_fresh: "k \<notin> fst ` set al \<Longrightarrow> AList.update k v al = al @ [(k, v)]"
  by (induction al) auto

lemma custom_presets_loop_ok:
  assumes "\<forall>s. hex_color_ok s \<longrightarrow> \<not> isl (hex s)"
  shows "\<forall>(k, cols) \<in> set items. cols \<noteq> [] \<and> list_all hex_color_ok cols \<Longrightarrow>
         distinct (map fst items) \<Longrightarrow> fst ` set acc \<inter> fst ` set items = {} \<Longrightarrow>
         custom_presets_loop hex items acc =
           Inr (acc @ map (\<lambda>(k, cols). (k, \<lparr>raw = Some cols, colors = map (projr \<circ> hex) cols\<rparr>)) items)"
proof (induction items arbitrary: acc)
  case Nil
  then show ?case by simp
next
  case (Cons item items)
  obtain k cols where item: "item = (k, cols)" by (cases item)
  have ok: "cols \<noteq> []" "list_all hex_color_ok cols" using Cons.prems(1) item by auto
  have b: "build_hex_color_profile hex cols = Inr \<lparr>raw = Some cols, colors = map (projr \<circ> hex) cols\<rparr>"
    using build_hex_color_profile_ok[OF ok assms] .
  have fresh: "k \<notin> fst ` set acc" using Cons.prems(3) item by auto
  have upd: "AList.update k \<lparr>raw = Some cols, colors = map (projr \<circ> hex) cols\<rparr> acc
               = acc @ [(k, \<lparr>raw = Some cols, colors = map (projr \<circ> hex) cols\<rparr>)]"
    using update_fresh[OF fresh] .
  have disj: "fst ` set (acc @ [(k, \<lparr>raw = Some cols, colors = map (projr \<circ> hex) cols\<rparr>)]) \<inter> fst ` set items = {}"
    using Cons.prems(2,3) item by auto
  have rest: "\<forall>(k, cols) \<in> set items. cols \<noteq> [] \<and> list_all hex_color_ok cols"
    using Cons.prems(1) by auto
  have d: "distinct (map fst items)" using Cons.prems(2) by simp
  show ?case
    using Cons.IH[OF rest d disj] b upd item by simp
qed

lemma custom_presets_loop_bad:
  assumes "\<forall>s. hex_color_ok s \<longrightarrow> \<not> isl (hex s)"
  shows "\<forall>(k', cols') \<in> set pre. cols' \<noteq> [] \<and> list_all hex_color_ok cols' \<Longrightarrow>
         \<not> list_all hex_color_ok cols \<Longrightarrow>
         custom_presets_loop hex (pre @ (k, cols) # post) acc =
           Inl (ValueError (''failed to validate custom preset key '' @ [CHR 0x22] @ k
                              @ [CHR 0x22] @ '': '' @ ''invalid hex color: '' @ first_bad_color cols))"
proof (induction pre arbitrary: acc)
  case Nil
  then show ?case by (simp add: build_hex_color_profile_eq)
next
  case (Cons item pre)
  obtain k' cols' where item: "item = (k', cols')" by (cases item)
  have ok: "cols' \<noteq> []" "list_all hex_color_ok cols'" using Cons.prems(1) item by auto
  have b: "build_hex_color_profile hex cols' = Inr \<lparr>raw = Some cols', colors = map (projr \<circ> hex) cols'\<rparr>"
    using build_hex_color_profile_ok[OF ok assms] .
  have rest: "\<forall>(k', cols') \<in> set pre. cols' \<noteq> [] \<and> list_all hex_color_ok cols'"
    using Cons.prems(1) by auto
  show ?case
    using Cons.IH[OF rest Cons.prems(2)] b item by simp
qed

lemma RGB_from_hex_accepts: "\<forall>s. hex_color_ok s \<longrightarrow> \<not> isl (RGB_from_hex s)"
proof (intro allI impI)
  fix s assume "hex_color_ok s"
  then have lit: "is_hex_literal s" by (simp add: hex_color_ok_iff)
  then obtain m ds where s: "s = m # ds" and len: "length ds = 3 \<or> length ds = 6"
    by (auto simp add: is_hex_literal_def split: list.splits)
  define vs where "vs = map hex_digit_value (drop (Suc 0) s)"
  have "length vs = 3 \<or> length vs = 6" using s len by (simp add: vs_def)
  then consider (short) r g b where "vs = [r, g, b]"
    | (long) r1 r2 g1 g2 b1 b2 where "vs = [r1, r2, g1, g2, b1, b2]"
    by (auto simp add: length_Suc_conv numeral_eq_Suc)
  then show "\<not> isl (RGB_from_hex s)"
    by cases (simp_all add: RGB_from_hex_def lit vs_def[symmetric])
qed



text \<open>
  Claim C4, as amended. Let hex parsing accept every literal that passes the check.
  Without custom presets (\<open>None\<close> or an empty dictionary) the result is the empty
  mapping. When every entry has a non-empty list of valid colours, the result has
  one profile per entry, under the entry's key and in the entries' order. When an
  entry holds an invalid colour and every entry before it has a non-empty list of
  valid colours, the call fails with the \<open>ValueError\<close> whose message names the key
  of that entry, the first one with an invalid colour, and then the first invalid
  colour of its list. What an entry with an empty list does is left out.
\<close>

theorem custom_preset_profiles_first_invalid:
  assumes "\<forall>s. hex_color_ok s \<longrightarrow> \<not> isl (hex s)"
  shows "(custom_presets cfg = None \<or> custom_presets cfg = Some []
            \<longrightarrow> custom_preset_profiles hex cfg = Inr [])
   \<and> (custom_presets cfg = Some items \<and> distinct (map fst items)
        \<and> (\<forall>(k, cols) \<in> set items. cols \<noteq> [] \<and> list_all hex_color_ok cols)
        \<longrightarrow> custom_preset_profiles hex cfg =
              Inr (map (\<lambda>(k, cols). (k, \<lparr>raw = Some cols, colors = map (projr \<circ> hex) cols\<rparr>)) items))
   \<and> (custom_presets cfg = Some (pre @ (k, cols) # post)
        \<and> (\<forall>(k', cols') \<in> set pre. cols' \<noteq> [] \<and> list_all hex_color_ok cols')
        \<and> \<not> list_all hex_color_ok cols
        \<longrightarrow> custom_preset_profiles hex cfg =
              Inl (ValueError (''failed to validate custom preset key '' @ [CHR 0x22] @ k
                                 @ [CHR 0x22] @ '': invalid hex color: '' @ first_bad_color cols)))"
proof -
  have a: "custom_presets cfg = None \<or> custom_presets cfg = Some []
            \<longrightarrow> custom_preset_profiles hex cfg = Inr []"
    by (auto simp add: custom_preset_profiles_def)
  have b: "custom_presets cfg = Some items \<and> distinct (map fst items)
        \<and> (\<forall>(k, cols) \<in> set items. cols \<noteq> [] \<and> list_all hex_color_ok cols)
        \<longrightarrow> custom_preset_profiles hex cfg =
              Inr (map (\<lambda>(k, cols). (k, \<lparr>raw = Some cols, colors = map (projr \<circ> hex) cols\<rparr>)) items)"
    using custom_presets_loop_ok[OF assms, of items "[]"]
    by (auto simp add: custom_preset_profiles_def)
  have c: "custom_presets cfg = Some (pre @ (k, cols) # post)
        \<and> (\<forall>(k', cols') \<in> set pre. cols' \<noteq> [] \<and> list_all hex_color_ok cols')
        \<and> \<not> list_all hex_color_ok cols
        \<longrightarrow> custom_preset_profiles hex cfg =
              Inl (ValueError (''failed to validate custom preset key '' @ [CHR 0x22] @ k
                                 @ [CHR 0x22] @ '': invalid hex color: '' @ first_bad_color cols))"
    using custom_presets_loop_bad[OF assms, of pre cols k post "[]"]
    by (auto simp add: custom_preset_profiles_def)
  show ?thesis using a b c by blast
qed

text \<open>
  The theorem at three records: one valid entry before an invalid one, no custom
  presets, and one valid entry.
\<close>

theorem custom_preset_profiles_first_invalid_witness:
  "custom_preset_profiles RGB_from_hex
     (config_with_presets (Some [(''a'', [''#fff'']), (''b'', [''#gggggg'', ''red''])]))
   = Inl (ValueError (''failed to validate custom preset key '' @ [CHR 0x22] @ ''b''
                        @ [CHR 0x22] @ '': invalid hex color: #gggggg''))
   \<and> custom_preset_profiles RGB_from_hex (config_with_presets None) = Inr []
   \<and> custom_preset_profiles RGB_from_hex (config_with_presets (Some [(''a'', [''#fff''])]))
       = Inr [(''a'', \<lparr>raw = Some [''#fff''], colors = [RGB 255 255 255]\<rparr>)]"
proof -
  have ok: "hex_color_ok ''#fff''" and bad: "\<not> hex_color_ok ''#gggggg''"
    by (simp_all add: hex_color_ok_def)
  have 1: "custom_preset_profiles RGB_from_hex
     (config_with_presets (Some [(''a'', [''#fff'']), (''b'', [''#gggggg'', ''red''])]))
   = Inl (ValueError (''failed to validate custom preset key '' @ [CHR 0x22] @ ''b''
                        @ [CHR 0x22] @ '': invalid hex color: #gggggg''))"
    using ok bad custom_preset_profiles_first_invalid[OF RGB_from_hex_accepts,
        where cfg = "config_with_presets (Some [(''a'', [''#fff'']), (''b'', [''#gggggg'', ''red''])])"
          and pre = "[(''a'', [''#fff''])]" and k = "''b''" and cols = "[''#gggggg'', ''red'']"
          and post = "[]"]
    by (simp add: config_with_presets_def first_bad_color_def)
  have 2: "custom_preset_profiles RGB_from_hex (config_with_presets None) = Inr []"
    using custom_preset_profiles_first_invalid[OF RGB_from_hex_accepts,
        where cfg = "config_with_presets None"]
    by (simp add: config_with_presets_def)
  have 3: "custom_preset_profiles RGB_from_hex (config_with_presets (Some [(''a'', [''#fff''])]))
       = Inr [(''a'', \<lparr>raw = Some [''#fff''], colors = [RGB 255 255 255]\<rparr>)]"
    using ok custom_preset_profiles_first_invalid[OF RGB_from_hex_accepts,
        where cfg = "config_with_presets (Some [(''a'', [''#fff''])])"
          and items = "[(''a'', [''#fff''])]"]
    by (simp add: config_with_presets_def RGB_from_hex_fff)
  show ?thesis using 1 2 3 by simp
qed

text \<open>
  Claim C4 as it was written promises an invalid-input error that names the key
  \<open>b\<close> here, whose list holds an invalid colour. The entry \<open>a\<close> before it has an
  empty list: the constructor raises \<open>IndexError\<close>, which is not caught.
\<close>

theorem custom_preset_profiles_empty_list_counterexample:
  "custom_preset_profiles RGB_from_hex
     (config_with_presets (Some [(''a'', []), (''b'', [''#gggggg''])])) = Inl IndexError"
  by (simp add: custom_preset_profiles_def config_with_presets_def build_hex_color_profile_def)

section \<open>Colouring a text\<close>




section \<open>Lightness for dark and light terminals\<close>

lemma set_light_raw_map:
  "colors p \<noteq> [] \<Longrightarrow>
   set_light_raw sl hex p light at_least at_most =
     Inr \<lparr>raw = None, colors = map (\<lambda>c. sl c light at_least at_most) (colors p)\<rparr>"
  by (simp add: set_light_raw_def ColorProfile_init_Rgbs)

lemma overlay_raw_map:
  "colors p \<noteq> [] \<Longrightarrow>
   overlay_raw ov hex p color alpha =
     Inr \<lparr>raw = None, colors = map (\<lambda>c. ov c color alpha) (colors p)\<rparr>"
  by (simp add: overlay_raw_def ColorProfile_init_Rgbs)

lemma RGB_from_hex_black: "RGB_from_hex ''#000000'' = Inr (RGB 0 0 0)"
  by (simp add: RGB_from_hex_def is_hex_literal_def is_hex_digit_def hex_digit_value_def)

lemma RGB_from_hex_white: "RGB_from_hex ''#FFFFFF'' = Inr (RGB 255 255 255)"
  by (simp add: RGB_from_hex_def is_hex_literal_def is_hex_digit_def hex_digit_value_def)

lemma py_lower_examples: "py_lower ''dark'' = ''dark''" "py_lower ''Light'' = ''light''"
  by code_simp+

text \<open>
  Claim C7. \<open>set_light_dl\<close> is \<open>overlay_dl\<close> exactly when \<open>use_overlay\<close> is set;
  otherwise it is \<open>set_light_raw\<close> with \<open>at_least\<close> for a dark terminal and with
  \<open>at_most\<close> for a light one. \<open>overlay_dl\<close> overlays the colour of \<open>#000000\<close> for a
  light terminal and the colour of \<open>#FFFFFF\<close> for a dark one, with the alpha
  \<open>abs(light - 0.5) * 2\<close>. Both raw operations map every colour of the profile.
  The alpha at the target 0.5 is zero, given what floating-point arithmetic does
  there: \<open>0.5 - 0.5\<close>, \<open>abs\<close> of the result and its double are all the same zero.
  A terminal name that is neither \<open>light\<close> nor \<open>dark\<close> fails the assertion.
\<close>

theorem set_light_dl_strategy:
  "set_light_dl F G sl ov hex p light term =
     (if use_overlay G then overlay_dl F G ov hex p light term
      else if py_lower (term_or_detected G term) = ''dark''
        then set_light_raw sl hex p light (Some True) None
      else if py_lower (term_or_detected G term) = ''light''
        then set_light_raw sl hex p light None (Some True)
      else Inl AssertionError)
   \<and> overlay_dl F G ov hex p light term =
     (if py_lower (term_or_detected G term) = ''light''
        then (case hex ''#000000'' of
                Inl e \<Rightarrow> Inl e
              | Inr black \<Rightarrow>
                  overlay_raw ov hex p black (overlay_alpha F light))
      else if py_lower (term_or_detected G term) = ''dark''
        then (case hex ''#FFFFFF'' of
                Inl e \<Rightarrow> Inl e
              | Inr white \<Rightarrow>
                  overlay_raw ov hex p white (overlay_alpha F light))
      else Inl AssertionError)
   \<and> (colors p \<noteq> [] \<longrightarrow>
        set_light_raw sl hex p light at_least at_most =
          Inr \<lparr>raw = None, colors = map (\<lambda>c. sl c light at_least at_most) (colors p)\<rparr>
        \<and> overlay_raw ov hex p color alpha =
          Inr \<lparr>raw = None, colors = map (\<lambda>c. ov c color alpha) (colors p)\<rparr>)
   \<and> overlay_alpha F light = f_mul F (f_abs F (f_sub F light (f_half F))) (f_two F)
   \<and> (f_sub F (f_half F) (f_half F) = z \<and> f_abs F z = z \<and> f_mul F z (f_two F) = z
        \<longrightarrow> overlay_alpha F (f_half F) = z)"
proof -
  have a: "set_light_dl F G sl ov hex p light term =
     (if use_overlay G then overlay_dl F G ov hex p light term
      else if py_lower (term_or_detected G term) = ''dark''
        then set_light_raw sl hex p light (Some True) None
      else if py_lower (term_or_detected G term) = ''light''
        then set_light_raw sl hex p light None (Some True)
      else Inl AssertionError)"
    by (simp add: set_light_dl_def Let_def)
  have b: "overlay_dl F G ov hex p light term =
     (if py_lower (term_or_detected G term) = ''light''
        then (case hex ''#000000'' of
                Inl e \<Rightarrow> Inl e
              | Inr black \<Rightarrow>
                  overlay_raw ov hex p black (overlay_alpha F light))
      else if py_lower (term_or_detected G term) = ''dark''
        then (case hex ''#FFFFFF'' of
                Inl e \<Rightarrow> Inl e
              | Inr white \<Rightarrow>
                  overlay_raw ov hex p white (overlay_alpha F light))
      else Inl AssertionError)"
    by (simp add: overlay_dl_def Let_def)
  have c: "colors p \<noteq> [] \<longrightarrow>
        set_light_raw sl hex p light at_least at_most =
          Inr \<lparr>raw = None, colors = map (\<lambda>c. sl c light at_least at_most) (colors p)\<rparr>
        \<and> overlay_raw ov hex p color alpha =
          Inr \<lparr>raw = None, colors = map (\<lambda>c. ov c color alpha) (colors p)\<rparr>"
    by (simp add: set_light_raw_map overlay_raw_map)
  have d: "f_sub F (f_half F) (f_half F) = z \<and> f_abs F z = z \<and> f_mul F z (f_two F) = z
        \<longrightarrow> overlay_alpha F (f_half F) = z"
    by (simp add: overlay_alpha_def)
  have e: "overlay_alpha F light = f_mul F (f_abs F (f_sub F light (f_half F))) (f_two F)"
    by (simp add: overlay_alpha_def)
  show ?thesis using a b c d e by blast
qed

text \<open>
  The theorem at a profile of one colour: the raw strategy on a detected dark
  terminal, the overlay strategy on a terminal given as \<open>Light\<close>, and the alpha at
  one half over the reals.
\<close>

theorem set_light_dl_strategy_witness:
  "set_light_dl exact_ops \<lparr>use_overlay = False, detected_light_dark = ''dark''\<rparr>
      (\<lambda>c l a m. c) (\<lambda>c d a. d) RGB_from_hex \<lparr>raw = None, colors = [RGB 1 2 3]\<rparr> (1 / 2) None
    = set_light_raw (\<lambda>c l a m. c) RGB_from_hex \<lparr>raw = None, colors = [RGB 1 2 3]\<rparr> (1 / 2 :: real) (Some True) None
   \<and> set_light_dl exact_ops \<lparr>use_overlay = True, detected_light_dark = ''dark''\<rparr>
      (\<lambda>c l a m. c) (\<lambda>c d a. d) RGB_from_hex \<lparr>raw = None, colors = [RGB 1 2 3]\<rparr> (1 / 2) (Some ''Light'')
    = Inr \<lparr>raw = None, colors = [RGB 0 0 0]\<rparr>
   \<and> overlay_alpha exact_ops (1 / 2) = 0"
proof -
  have 1: "set_light_dl exact_ops \<lparr>use_overlay = False, detected_light_dark = ''dark''\<rparr>
      (\<lambda>c l a m. c) (\<lambda>c d a. d) RGB_from_hex \<lparr>raw = None, colors = [RGB 1 2 3]\<rparr> (1 / 2) None
    = set_light_raw (\<lambda>c l a m. c) RGB_from_hex \<lparr>raw = None, colors = [RGB 1 2 3]\<rparr> (1 / 2 :: real) (Some True) None"
    using set_light_dl_strategy[of exact_ops
        "\<lparr>use_overlay = False, detected_light_dark = ''dark''\<rparr>"
        "\<lambda>c l a m. c" "\<lambda>c d a. d" RGB_from_hex
        "\<lparr>raw = None, colors = [RGB 1 2 3]\<rparr>" "1 / 2" None
        "Some True" None "RGB 0 0 0" 0 0]
    by (simp add: term_or_detected_def py_lower_examples)
  have 2: "set_light_dl exact_ops \<lparr>use_overlay = True, detected_light_dark = ''dark''\<rparr>
      (\<lambda>c l a m. c) (\<lambda>c d a. d) RGB_from_hex \<lparr>raw = None, colors = [RGB 1 2 3]\<rparr> (1 / 2) (Some ''Light'')
    = Inr \<lparr>raw = None, colors = [RGB 0 0 0]\<rparr>"
    using set_light_dl_strategy[of exact_ops
        "\<lparr>use_overlay = True, detected_light_dark = ''dark''\<rparr>"
        "\<lambda>c l a m. c" "\<lambda>c d a. d" RGB_from_hex
        "\<lparr>raw = None, colors = [RGB 1 2 3]\<rparr>" "1 / 2" "Some ''Light''"
        "Some True" None "RGB 0 0 0" 0 0]
    by (simp add: term_or_detected_def py_lower_examples RGB_from_hex_black exact_ops_def)
  have 3: "overlay_alpha exact_ops (1 / 2) = 0"
    using set_light_dl_strategy[of exact_ops
        "\<lparr>use_overlay = True, detected_light_dark = ''dark''\<rparr>"
        "\<lambda>c l a m. c" "\<lambda>c d a. d" RGB_from_hex
        "\<lparr>raw = None, colors = [RGB 1 2 3]\<rparr>" "1 / 2" None
        "Some True" None "RGB 0 0 0" 0 0]
    by (simp add: exact_ops_def)
  show ?thesis using 1 2 3 by simp
qed

section \<open>Construction of a profile\<close>

text \<open>
  Claim C9, as amended. The constructor raises \<open>IndexError\<close> on an empty list of
  either kind, and \<open>with_length\<close> raises \<open>ZeroDivisionError\<close> on a profile without
  colours. On a non-empty list the constructor never raises \<open>IndexError\<close>: a list of
  \<open>RGB\<close> values always gives a profile; a list of strings gives a profile when hex
  parsing accepts every string, and the error of hex parsing otherwise. \<open>with_length\<close>
  returns for every profile with at least one colour and every length.
\<close>

theorem construction_partial:
  "ColorProfile_init hex (Strs []) = Inl IndexError
   \<and> ColorProfile_init hex (Rgbs []) = Inl IndexError
   \<and> (colors p = [] \<longrightarrow> with_length p len = Inl ZeroDivisionError)
   \<and> (cs \<noteq> [] \<longrightarrow> ColorProfile_init hex (Rgbs cs) = Inr \<lparr>raw = None, colors = cs\<rparr>)
   \<and> (ss \<noteq> [] \<and> map_result hex ss = Inr cs' \<longrightarrow>
        ColorProfile_init hex (Strs ss) = Inr \<lparr>raw = Some ss, colors = cs'\<rparr>)
   \<and> (ss \<noteq> [] \<and> map_result hex ss = Inl e \<longrightarrow> ColorProfile_init hex (Strs ss) = Inl e)
   \<and> (colors p \<noteq> [] \<longrightarrow> (\<exists>ys. with_length p len = Inr ys))"
  using with_length_total[of p len] with_length_empty[of p len]
    ColorProfile_init_Rgbs[of cs hex] ColorProfile_init_Strs[of ss hex]
  by simp

text \<open>The theorem at a list of one colour, a list of one string and two profiles.\<close>

theorem construction_partial_witness:
  "ColorProfile_init RGB_from_hex (Rgbs [RGB 1 2 3]) = Inr \<lparr>raw = None, colors = [RGB 1 2 3]\<rparr>
   \<and> ColorProfile_init RGB_from_hex (Strs [''#fff'']) = Inr \<lparr>raw = Some [''#fff''], colors = [RGB 255 255 255]\<rparr>
   \<and> with_length \<lparr>raw = None, colors = []\<rparr> 5 = (Inl ZeroDivisionError :: py_error + RGB list)
   \<and> with_length \<lparr>raw = None, colors = [RGB 1 2 3]\<rparr> 2 = Inr [RGB 1 2 3, RGB 1 2 3]"
proof -
  have m: "map_result RGB_from_hex [''#fff''] = Inr [RGB 255 255 255]"
    by (simp add: RGB_from_hex_fff)
  have w: "with_length \<lparr>raw = None, colors = [RGB 1 2 3]\<rparr> 2 = Inr [RGB 1 2 3, RGB 1 2 3]"
    by code_simp
  show ?thesis
    using m w construction_partial[where hex = RGB_from_hex and cs = "[RGB 1 2 3]" and ss = "[''#fff'']"
        and cs' = "[RGB 255 255 255]" and p = "\<lparr>raw = None, colors = []\<rparr>" and len = 5
        and e = IndexError]
    by simp
qed

text \<open>
  Claim C9 as it was written has the constructor total on every non-empty list. The
  list of the one string \<open>red\<close> is not empty, and hex parsing refuses the string.
\<close>

theorem construction_invalid_hex_counterexample:
  "[''red''] \<noteq> [] \<and> isl (ColorProfile_init RGB_from_hex (Strs [''red'']))"
  by (simp add: RGB_from_hex_red)

section \<open>The launcher\<close>

lemma tuple_less_Nil: "\<not> tuple_less xs []"
  by (cases xs) simp_all

lemma tuple_less_10_12: "tuple_less vs [10, 12] \<longleftrightarrow> below_10_12 vs"
proof (cases vs)
  case Nil
  then show ?thesis by (simp add: below_10_12_def)
next
  case (Cons major rest)
  then show ?thesis
    by (cases rest) (auto simp add: below_10_12_def tuple_less_Nil)
qed

lemma platform_reason_eq:
  assumes "platform_system E = ''Darwin'' \<and> mac_ver E \<noteq> [] \<longrightarrow> version_tuple (mac_ver E) = Inr vs"
  shows "platform_reason E =
     Inr (if platform_system E = ''Windows'' \<and> windows_major E < 10 then Some windows_reason
          else if platform_system E = ''Darwin'' \<and> mac_ver E \<noteq> [] \<and> below_10_12 vs
            then Some (macos_reason (mac_ver E))
          else None)"
  using assms by (auto simp add: platform_reason_def tuple_less_10_12)

lemma version_examples:
  "version_tuple ''10.11.6'' = Inr [10, 11, 6]"
  "version_tuple ''10.12'' = Inr [10, 12]"
  "version_tuple ''14.4.1'' = Inr [14, 4, 1]"
  by code_simp+

text \<open>
  A version string with a part that is no integer makes \<open>int\<close> raise: the call
  ends in the \<open>ValueError\<close>, before any reason is chosen.
\<close>

lemma run_rust_unparsable_version:
  "run_rust (example_env ''Darwin'' 0 ''10.12.beta'' True [] [''hyfetch''])
     = Raised (ValueError (''invalid literal for int() with base 10: '' @ [CHR 0x27] @ ''beta'' @ [CHR 0x27]))"
  by code_simp

text \<open>
  Claim C5. Where the version of macOS, when one is reported, is a tuple of
  integers, the launcher decides in this order: on Windows with a major version
  below 10 it runs the Python version for the Windows reason; else on macOS with a
  version below 10.12 it runs the Python version for the macOS reason; else, when
  the executable is not at \<open>SRC/rust/hyfetch\<close> (\<open>hyfetch.exe\<close> on Windows), it runs
  the Python version for the reason of the missing binary; otherwise it replaces
  the process by the executable, with all arguments after the program name
  unchanged. \<open>Execv\<close> is an outcome of its own: nothing follows it.
\<close>

theorem run_rust_decision:
  "(platform_system E = ''Darwin'' \<and> mac_ver E \<noteq> [] \<longrightarrow> version_tuple (mac_ver E) = Inr vs) \<Longrightarrow>
   run_rust E =
     (if platform_system E = ''Windows'' \<and> windows_major E < 10
        then RunPy windows_reason (printed_warning E windows_reason)
      else if platform_system E = ''Darwin'' \<and> mac_ver E \<noteq> [] \<and> below_10_12 vs
        then RunPy (macos_reason (mac_ver E)) (printed_warning E (macos_reason (mac_ver E)))
      else if \<not> path_exists E (rust_executable E)
        then RunPy missing_reason (printed_warning E missing_reason)
      else Execv (path_str E (rust_executable E))
             (path_str E (rust_executable E) # drop 1 (argv E)))"
proof -
  assume v: "platform_system E = ''Darwin'' \<and> mac_ver E \<noteq> [] \<longrightarrow> version_tuple (mac_ver E) = Inr vs"
  show ?thesis
    unfolding run_rust_def platform_reason_eq[OF v]
    by (simp add: Let_def)
qed

text \<open>The theorem at five environments, one for each row of the matrix and Windows 10.\<close>

theorem run_rust_decision_witness:
  "run_rust (example_env ''Windows'' 6 [] True [] [''hyfetch'', ''-p'', ''rainbow''])
     = RunPy windows_reason (Some (warning_text windows_reason))
   \<and> run_rust (example_env ''Darwin'' 0 ''10.11.6'' True [''HYFETCH_DONT_WARN_RUST''] [''hyfetch''])
     = RunPy (macos_reason ''10.11.6'') None
   \<and> run_rust (example_env ''Darwin'' 0 ''10.12'' True [] [''hyfetch'', ''--june''])
     = Execv ''/opt/hyfetch/rust/hyfetch'' [''/opt/hyfetch/rust/hyfetch'', ''--june'']
   \<and> run_rust (example_env ''Linux'' 0 [] False [] [''hyfetch''])
     = RunPy missing_reason (Some (warning_text missing_reason))
   \<and> run_rust (example_env ''Windows'' 10 [] True [] [''hyfetch'', ''-p'', ''rainbow''])
     = Execv ''/opt/hyfetch/rust/hyfetch.exe'' [''/opt/hyfetch/rust/hyfetch.exe'', ''-p'', ''rainbow'']"
proof -
  have 1: "run_rust (example_env ''Windows'' 6 [] True [] [''hyfetch'', ''-p'', ''rainbow''])
     = RunPy windows_reason (Some (warning_text windows_reason))"
    using run_rust_decision[of "example_env ''Windows'' 6 [] True [] [''hyfetch'', ''-p'', ''rainbow'']" "[]"]
    by (simp add: example_env_def printed_warning_def)
  have 2: "run_rust (example_env ''Darwin'' 0 ''10.11.6'' True [''HYFETCH_DONT_WARN_RUST''] [''hyfetch''])
     = RunPy (macos_reason ''10.11.6'') None"
    using run_rust_decision[of "example_env ''Darwin'' 0 ''10.11.6'' True [''HYFETCH_DONT_WARN_RUST''] [''hyfetch'']" "[10, 11, 6]"]
    by (simp add: example_env_def printed_warning_def version_examples below_10_12_def)
  have 3: "run_rust (example_env ''Darwin'' 0 ''10.12'' True [] [''hyfetch'', ''--june''])
     = Execv ''/opt/hyfetch/rust/hyfetch'' [''/opt/hyfetch/rust/hyfetch'', ''--june'']"
    using run_rust_decision[of "example_env ''Darwin'' 0 ''10.12'' True [] [''hyfetch'', ''--june'']" "[10, 12]"]
    by (simp add: example_env_def rust_executable_def version_examples below_10_12_def)
  have 4: "run_rust (example_env ''Linux'' 0 [] False [] [''hyfetch''])
     = RunPy missing_reason (Some (warning_text missing_reason))"
    using run_rust_decision[of "example_env ''Linux'' 0 [] False [] [''hyfetch'']" "[]"]
    by (simp add: example_env_def printed_warning_def)
  have 5: "run_rust (example_env ''Windows'' 10 [] True [] [''hyfetch'', ''-p'', ''rainbow''])
     = Execv ''/opt/hyfetch/rust/hyfetch.exe'' [''/opt/hyfetch/rust/hyfetch.exe'', ''-p'', ''rainbow'']"
    using run_rust_decision[of "example_env ''Windows'' 10 [] True [] [''hyfetch'', ''-p'', ''rainbow'']" "[]"]
    by (simp add: example_env_def rust_executable_def)
  show ?thesis using 1 2 3 4 5 by simp
qed

text \<open>
  Claim C10. On Darwin with an empty version string no reason comes from the
  platform: the version is not parsed, and the launcher replaces the process when
  the executable exists and runs the Python version for the missing binary when it
  does not.
\<close>

theorem run_rust_empty_mac_ver:
  "platform_system E = ''Darwin'' \<Longrightarrow> mac_ver E = [] \<Longrightarrow>
   platform_reason E = Inr None
   \<and> run_rust E =
     (if path_exists E (rust_executable E)
        then Execv (path_str E (rust_executable E))
               (path_str E (rust_executable E) # drop 1 (argv E))
      else RunPy missing_reason (printed_warning E missing_reason))"
  by (simp add: run_rust_def platform_reason_def Let_def)

text \<open>The theorem on Darwin without a version, with and without the executable.\<close>

theorem run_rust_empty_mac_ver_witness:
  "platform_system (example_env ''Darwin'' 0 [] True [] [''hyfetch'']) = ''Darwin''
   \<and> mac_ver (example_env ''Darwin'' 0 [] True [] [''hyfetch'']) = []
   \<and> run_rust (example_env ''Darwin'' 0 [] True [] [''hyfetch''])
       = Execv ''/opt/hyfetch/rust/hyfetch'' [''/opt/hyfetch/rust/hyfetch'']
   \<and> run_rust (example_env ''Darwin'' 0 [] False [] [''hyfetch''])
       = RunPy missing_reason (Some (warning_text missing_reason))"
proof -
  have 1: "run_rust (example_env ''Darwin'' 0 [] True [] [''hyfetch''])
       = Execv ''/opt/hyfetch/rust/hyfetch'' [''/opt/hyfetch/rust/hyfetch'']"
    using run_rust_empty_mac_ver[of "example_env ''Darwin'' 0 [] True [] [''hyfetch'']"]
    by (simp add: example_env_def rust_executable_def)
  have 2: "run_rust (example_env ''Darwin'' 0 [] False [] [''hyfetch''])
       = RunPy missing_reason (Some (warning_text missing_reason))"
    using run_rust_empty_mac_ver[of "example_env ''Darwin'' 0 [] False [] [''hyfetch'']"]
    by (simp add: example_env_def printed_warning_def)
  show ?thesis using 1 2 by (simp add: example_env_def)
qed

section \<open>The palette registry\<close>

text \<open>
  Every entry but two is written with literals of the hex colour format, by the
  check that \<open>build_hex_color_profile\<close> applies to custom presets.
\<close>

lemma presets_other_entries:
  "list_all (\<lambda>(name, source). list_all hex_color_ok (preset_strings source))
     (filter (\<lambda>(name, source). name \<notin> set [''girlflux'', ''genderflux'']) PRESETS)"
  by code_simp

text \<open>
  Claim C2 has every string of the registry start with \<open>#\<close>. The entries
  \<open>girlflux\<close> and \<open>genderflux\<close> are written without it: their strings are six hex
  digits with no marker, which neither the format of the specification nor the
  check of \<open>build_hex_color_profile\<close> accepts.
\<close>

theorem presets_without_marker:
  "map_of PRESETS ''girlflux'' =
     Some (Plain [''f9e6d7'', ''f2526c'', ''bf0311'', ''e9c587'', ''bf0311'', ''f2526c'', ''f9e6d7''])
   \<and> map_of PRESETS ''genderflux'' =
     Some (Plain [''f47694'', ''f2a2b9'', ''cecece'', ''7ce0f7'', ''3ecdf9'', ''fff48d''])
   \<and> \<not> is_hex_literal ''f9e6d7'' \<and> \<not> hex_color_ok ''f9e6d7''
   \<and> \<not> is_hex_literal ''f47694'' \<and> \<not> hex_color_ok ''f47694''"
proof -
  have 1: "map_of PRESETS ''girlflux'' =
     Some (Plain [''f9e6d7'', ''f2526c'', ''bf0311'', ''e9c587'', ''bf0311'', ''f2526c'', ''f9e6d7''])"
    by (simp add: PRESETS_def)
  have 2: "map_of PRESETS ''genderflux'' =
     Some (Plain [''f47694'', ''f2a2b9'', ''cecece'', ''7ce0f7'', ''3ecdf9'', ''fff48d''])"
    by (simp add: PRESETS_def)
  have 3: "\<not> is_hex_literal ''f9e6d7''" "\<not> hex_color_ok ''f9e6d7''"
     "\<not> is_hex_literal ''f47694''" "\<not> hex_color_ok ''f47694''"
    by (simp_all add: is_hex_literal_def hex_color_ok_def)
  show ?thesis using 1 2 3 by simp
qed

end
